theory Spec2Isabelle
  imports Complex_Main
begin

section \<open>Common conventions\<close>

text \<open>
  A Python float is modelled by the real number it denotes (type \<open>real\<close>). In the wave
  scheduler, the enemies, the projectiles and the build manager the operations on floats
  are the exact ones on the reals. In the difficulty scaling, where results are rounded,
  truncated and printed, every operation rounds to a double as IEEE 754 arithmetic does
  (see that section). Python integers are \<open>int\<close>.
  An operation that mutates an object takes the object and returns the new one; a raised
  exception is the \<open>Inl\<close> branch of a sum.
\<close>

datatype error = ValueError string | ZeroDivisionError

section \<open>Wave scheduler (src/waves/wave\_manager.py)\<close>

type_synonym EnemySpawn = "string \<times> real"

type_synonym WaveDefinition = "EnemySpawn list"

record WaveState =
  spawns :: "EnemySpawn list"
  elapsed :: real

text \<open>
  The private fields \<open>_waves\<close>, \<open>_loop_waves\<close>, \<open>_current_index\<close> and \<open>_state\<close> of
  the class. The spawn callback is not stored: an operation that calls it returns the list
  of the enemy types it was called with, in call order.
\<close>

record WaveManager =
  waves :: "EnemySpawn list list"
  loop_waves :: bool
  current_index :: int
  state :: "WaveState option"

text \<open>\<open>__init__\<close>: every wave is sorted by spawn time (Python's \<open>sorted\<close> is stable).\<close>

definition init_WaveManager :: "WaveDefinition list \<Rightarrow> bool \<Rightarrow> WaveManager" where
  "init_WaveManager ws lp =
     \<lparr>waves = map (sort_key snd) ws, loop_waves = lp, current_index = - 1, state = None\<rparr>"

definition wave_in_progress :: "WaveManager \<Rightarrow> bool" where
  "wave_in_progress m = (state m \<noteq> None)"

definition total_waves :: "WaveManager \<Rightarrow> int" where
  "total_waves m = int (length (waves m))"

text \<open>
  \<open>_current_index\<close> is only ever assigned \<open>-1\<close>, a validated index or \<open>next_index\<close>,
  so \<open>next_index\<close> is never negative when the wave is read; \<open>nat\<close> is the list position.
\<close>

definition start_next_wave :: "WaveManager \<Rightarrow> bool \<times> WaveManager" where
  "start_next_wave m =
     (if state m \<noteq> None then (False, m)
      else
        let next_index = current_index m + 1;
            chosen =
              (if next_index \<ge> int (length (waves m))
               then (if loop_waves m \<and> waves m \<noteq> [] then Some 0 else None)
               else Some next_index)
        in case chosen of
             None \<Rightarrow> (False, m)
           | Some i \<Rightarrow>
               (True, m\<lparr>current_index := i,
                         state := Some \<lparr>spawns = waves m ! nat i, elapsed = 0\<rparr>\<rparr>))"

definition reset :: "WaveManager \<Rightarrow> WaveManager" where
  "reset m = m\<lparr>current_index := - 1, state := None\<rparr>"

text \<open>
  The \<open>while\<close> loop of \<open>update\<close>: pops the head of the queue while its spawn time is at
  most the elapsed time, calling the callback with the enemy type. Returns the calls made
  and the queue left.
\<close>

fun pop_due :: "real \<Rightarrow> EnemySpawn list \<Rightarrow> string list \<times> EnemySpawn list" where
  "pop_due e [] = ([], [])"
| "pop_due e ((enemy_type, t) # rest) =
     (if t \<le> e
      then (let (fired, q) = pop_due e rest in (enemy_type # fired, q))
      else ([], (enemy_type, t) # rest))"

definition WaveManager_update :: "real \<Rightarrow> WaveManager \<Rightarrow> string list \<times> WaveManager" where
  "WaveManager_update delta_time m =
     (case state m of
        None \<Rightarrow> ([], m)
      | Some st \<Rightarrow>
          let e = elapsed st + delta_time;
              (fired, q) = pop_due e (spawns st)
          in (fired, m\<lparr>state := (if q = [] then None else Some \<lparr>spawns = q, elapsed = e\<rparr>)\<rparr>))"

definition is_finished :: "WaveManager \<Rightarrow> bool" where
  "is_finished m =
     (\<not> loop_waves m \<and> current_index m \<ge> int (length (waves m)) - 1 \<and> state m = None)"

text \<open>
  The snapshot dictionary. A key that is absent is \<open>None\<close>; \<open>load_progress\<close> reads every
  key with a default.
\<close>

record ProgressData =
  pd_current_index :: "int option"
  pd_wave_in_progress :: "bool option"
  pd_remaining_spawns :: "EnemySpawn list option"
  pd_elapsed :: "real option"

definition serialize_progress :: "WaveManager \<Rightarrow> ProgressData" where
  "serialize_progress m =
     \<lparr>pd_current_index = Some (current_index m),
      pd_wave_in_progress = Some (wave_in_progress m),
      pd_remaining_spawns = Some (case state m of Some st \<Rightarrow> spawns st | None \<Rightarrow> []),
      pd_elapsed = Some (case state m of Some st \<Rightarrow> elapsed st | None \<Rightarrow> 0)\<rparr>"

definition dict_get :: "'a option \<Rightarrow> 'a \<Rightarrow> 'a" where
  "dict_get v dflt = (case v of None \<Rightarrow> dflt | Some x \<Rightarrow> x)"

text \<open>
  \<open>load_progress\<close> returns the outcome (the \<open>ValueError\<close> or normal return) together with
  the manager as it is afterwards.
\<close>

definition load_progress :: "ProgressData \<Rightarrow> WaveManager \<Rightarrow> (error + unit) \<times> WaveManager" where
  "load_progress d m =
     (let index = dict_get (pd_current_index d) (- 1) in
      if index < - 1 \<or> index \<ge> int (length (waves m))
      then (Inl (ValueError ''Invalid wave index in progress data''), m)
      else
        let m1 = m\<lparr>current_index := index\<rparr> in
        if dict_get (pd_wave_in_progress d) False \<and> 0 \<le> index \<and> index < int (length (waves m))
        then (Inr (), m1\<lparr>state := Some \<lparr>spawns = dict_get (pd_remaining_spawns d) [],
                                         elapsed = dict_get (pd_elapsed d) 0\<rparr>\<rparr>)
        else (Inr (), m1\<lparr>state := None\<rparr>))"

text \<open>
  The managers that the public API produces from a wave table \<open>ws\<close>: construction, then
  any sequence of \<open>start_next_wave\<close>, \<open>update\<close>, \<open>reset\<close>, and \<open>load_progress\<close> of a
  snapshot that \<open>serialize_progress\<close> made of such a manager.
\<close>

inductive reachable :: "WaveDefinition list \<Rightarrow> bool \<Rightarrow> WaveManager \<Rightarrow> bool"
  for ws :: "WaveDefinition list" and lp :: bool where
  r_init: "reachable ws lp (init_WaveManager ws lp)"
| r_start: "reachable ws lp m \<Longrightarrow> reachable ws lp (snd (start_next_wave m))"
| r_update: "reachable ws lp m \<Longrightarrow> reachable ws lp (snd (WaveManager_update dt m))"
| r_reset: "reachable ws lp m \<Longrightarrow> reachable ws lp (reset m)"
| r_load: "reachable ws lp m \<Longrightarrow> reachable ws lp m' \<Longrightarrow>
           reachable ws lp (snd (load_progress (serialize_progress m) m'))"

text \<open>The predicates "due at elapsed time \<open>e\<close>" and its complement, on a queued spawn.\<close>

definition due :: "real \<Rightarrow> EnemySpawn \<Rightarrow> bool" where
  "due e sp = (snd sp \<le> e)"

definition pending :: "real \<Rightarrow> EnemySpawn \<Rightarrow> bool" where
  "pending e sp = (\<not> snd sp \<le> e)"

text \<open>
  The invariant of the reachable managers: the wave table is the sorted input, the index
  is in range, and an active wave's queue is a suffix of the wave at the current index.
\<close>

definition wm_inv :: "WaveDefinition list \<Rightarrow> bool \<Rightarrow> WaveManager \<Rightarrow> bool" where
  "wm_inv ws lp m =
     (waves m = map (sort_key snd) ws \<and> loop_waves m = lp \<and>
      - 1 \<le> current_index m \<and> current_index m < int (length ws) \<and>
      (\<forall>st. state m = Some st \<longrightarrow>
         0 \<le> current_index m \<and>
         (\<exists>k. spawns st = drop k (sort_key snd (ws ! nat (current_index m))))))"

section \<open>Enemies (src/enemies/base\_enemy.py)\<close>

type_synonym Vector = "real \<times> real"

record AnimationState =
  frames :: "string list"
  frame_time :: real
  current_time :: real
  current_frame_index :: int

text \<open>
  The \<open>while\<close> loop of \<open>AnimationState.update\<close>. It does not end when \<open>frame_time\<close> is not
  positive and the condition holds, so its result is optional: \<open>None\<close> is a loop that
  runs forever.
\<close>

partial_function (option) AnimationState_loop :: "AnimationState \<Rightarrow> AnimationState option" where
  "AnimationState_loop a =
     (if current_time a \<ge> frame_time a
      then AnimationState_loop
             (a\<lparr>current_time := current_time a - frame_time a,
                current_frame_index := (current_frame_index a + 1) mod int (length (frames a))\<rparr>)
      else Some a)"

definition AnimationState_update :: "real \<Rightarrow> AnimationState \<Rightarrow> AnimationState option" where
  "AnimationState_update dt a =
     (if frames a = [] then Some a
      else AnimationState_loop (a\<lparr>current_time := current_time a + dt\<rparr>))"

record Player =
  lives :: int

definition init_Player :: "int \<Rightarrow> error + Player" where
  "init_Player n =
     (if n \<le> 0 then Inl (ValueError ''Player must start with at least one life.'')
      else Inr \<lparr>lives = n\<rparr>)"

definition lose_life :: "Player \<Rightarrow> Player" where
  "lose_life p = (if lives p > 0 then p\<lparr>lives := lives p - 1\<rparr> else p)"

record BaseEnemy =
  waypoints :: "Vector list"
  waypoint_index :: nat
  position :: Vector
  speed :: real
  health :: int
  alive :: bool
  arrival_tolerance :: real
  animation :: AnimationState
  reached_goal :: bool

text \<open>
  \<open>__init__\<close>, with the keyword defaults passed explicitly: \<open>animation_frames\<close> is optional
  (\<open>None\<close> gives no frames) and the animation starts with the dataclass defaults
  \<open>frame_time = 0.1\<close>, \<open>current_time = 0\<close>, \<open>current_frame_index = 0\<close>.
\<close>

definition init_BaseEnemy ::
  "Vector list \<Rightarrow> real \<Rightarrow> int \<Rightarrow> string list option \<Rightarrow> real \<Rightarrow> error + BaseEnemy" where
  "init_BaseEnemy waypoint_list spd hp animation_frames tol =
     (if waypoint_list = []
      then Inl (ValueError ''At least one waypoint is required for an enemy path.'')
      else Inr \<lparr>waypoints = waypoint_list, waypoint_index = 0, position = hd waypoint_list,
                 speed = spd, health = hp, alive = True, arrival_tolerance = tol,
                 animation = \<lparr>frames = (case animation_frames of None \<Rightarrow> [] | Some fs \<Rightarrow> fs),
                              frame_time = 1 / 10, current_time = 0, current_frame_index = 0\<rparr>,
                 reached_goal = False\<rparr>)"

definition target_waypoint :: "BaseEnemy \<Rightarrow> Vector" where
  "target_waypoint e = waypoints e ! waypoint_index e"

definition take_damage :: "int \<Rightarrow> BaseEnemy \<Rightarrow> BaseEnemy" where
  "take_damage amount e =
     (if \<not> alive e then e
      else
        let e1 = e\<lparr>health := health e - amount\<rparr>
        in if health e1 \<le> 0 then e1\<lparr>alive := False\<rparr> else e1)"

definition on_goal_reached :: "BaseEnemy \<Rightarrow> Player option \<Rightarrow> BaseEnemy \<times> Player option" where
  "on_goal_reached e player =
     (e\<lparr>reached_goal := True\<rparr>,
      (case player of None \<Rightarrow> None | Some p \<Rightarrow> Some (lose_life p)))"

text \<open>
  The movement loop of \<open>BaseEnemy.update\<close>, on the remaining distance, the enemy and the
  optional player. \<open>break\<close> is a return of the state reached; \<open>continue\<close> and the end of
  the loop body are the recursive calls.
\<close>

function move_loop :: "real \<Rightarrow> BaseEnemy \<Rightarrow> Player option \<Rightarrow> BaseEnemy \<times> Player option" where
  "move_loop remaining_distance e player =
     (if remaining_distance > 0 \<and> \<not> reached_goal e then
        let target_x = fst (target_waypoint e); target_y = snd (target_waypoint e);
            current_x = fst (position e); current_y = snd (position e);
            diff_x = target_x - current_x;
            diff_y = target_y - current_y;
            distance_to_target = sqrt (diff_x\<^sup>2 + diff_y\<^sup>2)
        in
          if distance_to_target \<le> arrival_tolerance e then
            (if waypoint_index e + 1 \<ge> length (waypoints e)
             then on_goal_reached (e\<lparr>position := target_waypoint e\<rparr>) player
             else move_loop remaining_distance
                    (e\<lparr>position := target_waypoint e, waypoint_index := waypoint_index e + 1\<rparr>)
                    player)
          else if distance_to_target \<le> remaining_distance then
            (if waypoint_index e + 1 \<ge> length (waypoints e)
             then on_goal_reached (e\<lparr>position := target_waypoint e\<rparr>) player
             else move_loop (remaining_distance - distance_to_target)
                    (e\<lparr>position := target_waypoint e, waypoint_index := waypoint_index e + 1\<rparr>)
                    player)
          else
            let ratio = remaining_distance / distance_to_target;
                new_x = current_x + diff_x * ratio;
                new_y = current_y + diff_y * ratio
            in move_loop 0 (e\<lparr>position := (new_x, new_y)\<rparr>) player
      else (e, player))"
  by pat_completeness auto
termination
  by (relation "measure (\<lambda>(r, e, p).
        2 * (length (waypoints e) - waypoint_index e) + (if r > 0 then 1 else 0))")
     (auto simp: Let_def)

declare move_loop.simps [simp del]

text \<open>
  \<open>BaseEnemy.update\<close>. The result is \<open>None\<close> when the animation loop does not end.
\<close>

definition BaseEnemy_update ::
  "real \<Rightarrow> BaseEnemy \<Rightarrow> Player option \<Rightarrow> (BaseEnemy \<times> Player option) option" where
  "BaseEnemy_update dt e player =
     (if \<not> alive e \<or> reached_goal e then Some (e, player)
      else
        case AnimationState_update dt (animation e) of
          None \<Rightarrow> None
        | Some a \<Rightarrow> Some (move_loop (speed e * dt) (e\<lparr>animation := a\<rparr>) player))"

section \<open>Difficulty scaling (tds/models.py, tds/game.py)\<close>

record WaveBlueprint =
  bp_wave :: int
  bp_enemy_type :: string
  bp_count :: int
  base_health :: real
  base_speed :: real
  bp_special :: "string option"

record WaveConfig =
  cfg_wave :: int
  cfg_enemy_type :: string
  cfg_count :: int
  cfg_health :: real
  cfg_speed :: real
  cfg_special :: "string option"
  difficulty_tags :: "string list"

record DifficultyCurve =
  health_growth :: real
  speed_growth :: real
  count_growth :: real
  special_frequency :: int
  extra_specials :: "string list"

text \<open>
  The dataclass defaults. Strings are byte strings: the accented letter of the first and
  third special name is its two UTF-8 bytes. A float field of a record holds the value
  that was written or parsed; what Python stores is the double nearest to it, so every
  read of a float field below is \<open>double_round\<close> of the field (which changes nothing when
  the value is a double already).
\<close>

definition default_DifficultyCurve :: DifficultyCurve where
  "default_DifficultyCurve =
     \<lparr>health_growth = 22 / 100, speed_growth = 5 / 100, count_growth = 8 / 100,
      special_frequency = 3,
      extra_specials = [[CHR 0xC3, CHR 0xA9] @ ''lite'', ''acorazado'',
                        ''et'' @ [CHR 0xC3, CHR 0xA9] @ ''reo'']\<rparr>"

text \<open>
  Python's \<open>round(x)\<close> on a real: to the nearest integer, a tie to the even one. The
  same rule rounds a significand in IEEE 754 arithmetic.
\<close>

definition py_round_int :: "real \<Rightarrow> int" where
  "py_round_int x =
     (let f = \<lfloor>x\<rfloor>; d = x - of_int f
      in if d < 1 / 2 then f
         else if d > 1 / 2 then f + 1
         else if even f then f else f + 1)"

text \<open>
  Double arithmetic. \<open>double_round\<close> is the rounding of IEEE 754 binary64, to the nearest
  double with ties to the even significand: for \<open>2^k \<le> |x| < 2^(k+1)\<close> the doubles are the
  integer multiples of \<open>2^(k-52)\<close>. The exponent is not bounded (overflow and subnormal
  numbers are not modelled). Python's \<open>+\<close>, \<open>-\<close> and \<open>*\<close> on floats are the exact operation
  followed by this rounding; an int operand is converted to a double first.
\<close>

definition pow2 :: "int \<Rightarrow> real" where
  "pow2 k = (if k \<ge> 0 then 2 ^ nat k else 1 / 2 ^ nat (- k))"

definition double_round :: "real \<Rightarrow> real" where
  "double_round x =
     (if x = 0 then 0
      else
        let u = pow2 (\<lfloor>log 2 \<bar>x\<bar>\<rfloor> - 52)
        in of_int (py_round_int (x / u)) * u)"

definition float_add :: "real \<Rightarrow> real \<Rightarrow> real" where
  "float_add x y = double_round (x + y)"

definition float_sub :: "real \<Rightarrow> real \<Rightarrow> real" where
  "float_sub x y = double_round (x - y)"

definition float_mul :: "real \<Rightarrow> real \<Rightarrow> real" where
  "float_mul x y = double_round (x * y)"

text \<open>
  \<open>round(x, n)\<close> on a float rounds the exact value of \<open>x\<close> to \<open>n\<close> decimals, a tie to the
  even digit, and returns the double nearest to that decimal. \<open>int(x)\<close> on a float
  truncates towards zero.
\<close>

definition py_round :: "real \<Rightarrow> nat \<Rightarrow> real" where
  "py_round x ndigits = double_round (of_int (py_round_int (x * 10 ^ ndigits)) / 10 ^ ndigits)"

definition py_int :: "real \<Rightarrow> int" where
  "py_int x = (if x \<ge> 0 then \<lfloor>x\<rfloor> else \<lceil>x\<rceil>)"

text \<open>
  Python's \<open>x ** n\<close> for a float \<open>x\<close> and an int \<open>n\<close>: zero to a negative power raises
  \<open>ZeroDivisionError\<close>; otherwise the C library's \<open>pow\<close> is called, modelled as the exact
  power rounded once to a double. At the exponents 0 and 1 that is \<open>1\<close> and \<open>x\<close>, as in
  every library; at other exponents a library may return the neighbouring double.
\<close>

definition py_pow :: "real \<Rightarrow> int \<Rightarrow> error + real" where
  "py_pow x n =
     (if n \<ge> 0 then Inr (double_round (x ^ nat n))
      else if x = 0 then Inl ZeroDivisionError
      else Inr (double_round (1 / x ^ nat (- n))))"

definition health_multiplier :: "DifficultyCurve \<Rightarrow> int \<Rightarrow> error + real" where
  "health_multiplier c wave_index =
     py_pow (float_add 1 (double_round (health_growth c))) (wave_index - 1)"

definition speed_multiplier :: "DifficultyCurve \<Rightarrow> int \<Rightarrow> error + real" where
  "speed_multiplier c wave_index =
     py_pow (float_add 1 (double_round (speed_growth c))) (wave_index - 1)"

definition count_multiplier :: "DifficultyCurve \<Rightarrow> int \<Rightarrow> error + real" where
  "count_multiplier c wave_index =
     py_pow (float_add 1 (double_round (count_growth c))) (wave_index - 1)"

text \<open>
  What the three multiplier methods return for a growth rate and a wave number from 1,
  where the power cannot fail.
\<close>

definition double_multiplier :: "real \<Rightarrow> int \<Rightarrow> real" where
  "double_multiplier growth wave_index =
     double_round (float_add 1 (double_round growth) ^ nat (wave_index - 1))"

text \<open>Python's \<open>//\<close> and \<open>%\<close> on ints: floor division, and an error for a zero divisor.\<close>

definition py_floordiv :: "int \<Rightarrow> int \<Rightarrow> error + int" where
  "py_floordiv a b = (if b = 0 then Inl ZeroDivisionError else Inr (a div b))"

definition py_mod :: "int \<Rightarrow> int \<Rightarrow> error + int" where
  "py_mod a b = (if b = 0 then Inl ZeroDivisionError else Inr (a mod b))"

text \<open>
  \<open>pick_special\<close>. The index \<open>idx % len(extra_specials)\<close> lies in \<open>[0, len)\<close>, so the list
  read never fails once the modulus has not.
\<close>

definition pick_special :: "DifficultyCurve \<Rightarrow> int \<Rightarrow> error + string" where
  "pick_special c wave_index =
     (case py_floordiv wave_index (special_frequency c) of
        Inl err \<Rightarrow> Inl err
      | Inr q \<Rightarrow>
          let idx = q - 1 in
          case py_mod idx (int (length (extra_specials c))) of
            Inl err \<Rightarrow> Inl err
          | Inr i \<Rightarrow> Inr (extra_specials c ! nat i))"

text \<open>\<open>str\<close> of an int.\<close>

definition digit_char :: "nat \<Rightarrow> char" where
  "digit_char d = ''0123456789'' ! d"

fun str_nat :: "nat \<Rightarrow> string" where
  "str_nat n = (if n < 10 then [digit_char n] else str_nat (n div 10) @ [digit_char (n mod 10)])"

declare str_nat.simps [simp del]

definition str_int :: "int \<Rightarrow> string" where
  "str_int i = (if i < 0 then CHR ''-'' # str_nat (nat (- i)) else str_nat (nat i))"

text \<open>Truthiness of an optional string: \<open>None\<close> and the empty string are false.\<close>

definition truthy :: "string option \<Rightarrow> bool" where
  "truthy s = (case s of None \<Rightarrow> False | Some t \<Rightarrow> t \<noteq> [])"

text \<open>
  The special-enemy step of the loop body (lines 61 to 66): the special assigned and the
  tags after it. The conditions are evaluated left to right, so the modulus is only
  computed for a blueprint without a special and a wave that is at least the frequency.
\<close>

definition assign_special ::
  "DifficultyCurve \<Rightarrow> WaveBlueprint \<Rightarrow> string list \<Rightarrow> error + (string option \<times> string list)" where
  "assign_special c bp tags =
     (let special = bp_special bp in
      if \<not> truthy special \<and> bp_wave bp \<ge> special_frequency c then
        (case py_mod (bp_wave bp) (special_frequency c) of
           Inl err \<Rightarrow> Inl err
         | Inr r \<Rightarrow>
             if r = 0 then
               (case pick_special c (bp_wave bp) of
                  Inl err \<Rightarrow> Inl err
                | Inr sp \<Rightarrow> Inr (Some sp, tags @ [''especial '' @ sp]))
             else Inr (special, tags))
      else if truthy special then Inr (special, tags @ [''especial '' @ the special])
      else Inr (special, tags))"

text \<open>
  The tags of lines 53 to 59, from the multipliers and the scaled count. The number in a
  percentage tag is \<open>int\<close> of the double that \<open>(multiplier - 1) * 100\<close> evaluates to.
\<close>

definition scaling_tags :: "real \<Rightarrow> real \<Rightarrow> int \<Rightarrow> int \<Rightarrow> string list" where
  "scaling_tags hm sm scaled_count base_count =
     (let tags = [];
          tags = (if hm > 1
                  then tags @ [''+vida '' @ str_int (py_int (float_mul (float_sub hm 1) 100)) @ ''%'']
                  else tags);
          tags = (if sm > 1
                  then tags @ [''+velocidad '' @ str_int (py_int (float_mul (float_sub sm 1) 100)) @ ''%'']
                  else tags);
          tags = (if scaled_count > base_count
                  then tags @ [''+cantidad '' @ str_int (scaled_count - base_count)]
                  else tags)
      in tags)"

text \<open>The body of the loop of \<open>apply_difficulty\<close> for one blueprint.\<close>

definition scale_blueprint :: "DifficultyCurve \<Rightarrow> WaveBlueprint \<Rightarrow> error + WaveConfig" where
  "scale_blueprint c bp =
     (case health_multiplier c (bp_wave bp) of Inl err \<Rightarrow> Inl err | Inr hm \<Rightarrow>
      case speed_multiplier c (bp_wave bp) of Inl err \<Rightarrow> Inl err | Inr sm \<Rightarrow>
      case count_multiplier c (bp_wave bp) of Inl err \<Rightarrow> Inl err | Inr cm \<Rightarrow>
        let scaled_health = py_round (float_mul (double_round (base_health bp)) hm) 2;
            scaled_speed = py_round (float_mul (double_round (base_speed bp)) sm) 2;
            scaled_count = max 1 \<lceil>float_mul (double_round (of_int (bp_count bp))) cm\<rceil>;
            tags = scaling_tags hm sm scaled_count (bp_count bp)
        in case assign_special c bp tags of
             Inl err \<Rightarrow> Inl err
           | Inr (special, tags) \<Rightarrow>
               Inr \<lparr>cfg_wave = bp_wave bp, cfg_enemy_type = bp_enemy_type bp,
                    cfg_count = scaled_count, cfg_health = scaled_health,
                    cfg_speed = scaled_speed, cfg_special = special,
                    difficulty_tags = tags\<rparr>)"

fun scale_each :: "DifficultyCurve \<Rightarrow> WaveBlueprint list \<Rightarrow> error + WaveConfig list" where
  "scale_each c [] = Inr []"
| "scale_each c (bp # bps) =
     (case scale_blueprint c bp of
        Inl err \<Rightarrow> Inl err
      | Inr w \<Rightarrow> (case scale_each c bps of Inl err \<Rightarrow> Inl err | Inr ws \<Rightarrow> Inr (w # ws)))"

definition apply_difficulty ::
  "WaveBlueprint list \<Rightarrow> DifficultyCurve option \<Rightarrow> error + WaveConfig list" where
  "apply_difficulty blueprints curve =
     (let c = (case curve of None \<Rightarrow> default_DifficultyCurve | Some c \<Rightarrow> c)
      in scale_each c (sort_key bp_wave blueprints))"

section \<open>Projectiles (src/towers/projectile.py)\<close>

text \<open>
  \<open>TargetLike\<close> is a protocol: any object with a \<open>position\<close>, \<open>is_alive()\<close> and
  \<open>take_damage(amount)\<close>. The target object has a state of some type \<open>'t\<close>, and the
  three members are functions on it; \<open>take_damage\<close> returns the target's new state.
\<close>

record 't TargetLike =
  tl_position :: "'t \<Rightarrow> Vector"
  is_alive :: "'t \<Rightarrow> bool"
  tl_take_damage :: "real \<Rightarrow> 't \<Rightarrow> 't"

text \<open>
  The projectile's own fields. Its \<open>target\<close> field is a reference to a shared object, so
  an operation on the projectile takes and returns the target's state as well.
\<close>

record Projectile =
  proj_position :: Vector
  proj_speed :: real
  proj_damage :: real
  finished :: bool

definition hit_target :: "'t TargetLike \<Rightarrow> Projectile \<times> 't \<Rightarrow> Projectile \<times> 't" where
  "hit_target ops pt =
     (let p = fst pt; tgt = snd pt in
      if \<not> is_alive ops tgt then (p\<lparr>finished := True\<rparr>, tgt)
      else (p\<lparr>finished := True\<rparr>, tl_take_damage ops (proj_damage p) tgt))"

definition Projectile_update ::
  "'t TargetLike \<Rightarrow> real \<Rightarrow> Projectile \<times> 't \<Rightarrow> Projectile \<times> 't" where
  "Projectile_update ops dt pt =
     (let p = fst pt; tgt = snd pt in
      if finished p then (p, tgt)
      else if \<not> is_alive ops tgt then (p\<lparr>finished := True\<rparr>, tgt)
      else
        let tx = fst (tl_position ops tgt); ty = snd (tl_position ops tgt);
            x = fst (proj_position p); y = snd (proj_position p);
            dx = tx - x;
            dy = ty - y;
            distance = sqrt (dx\<^sup>2 + dy\<^sup>2)
        in
          if distance = 0 then hit_target ops (p, tgt)
          else
            let travel_distance = proj_speed p * dt in
            if travel_distance \<ge> distance
            then hit_target ops (p\<lparr>proj_position := (tx, ty)\<rparr>, tgt)
            else
              let ratio = travel_distance / distance
              in (p\<lparr>proj_position := (x + dx * ratio, y + dy * ratio)\<rparr>, tgt))"

section \<open>Build manager (src/ui/build\_manager.py)\<close>

type_synonym GridPosition = "int \<times> int"

type_synonym Color = "int \<times> int \<times> int"

text \<open>
  Of \<open>TowerButton\<close> (src/ui/hud\_overlay.py) the build manager reads \<open>cost\<close> only; the
  icon, colours and rectangle are used for drawing and are left out.
\<close>

record TowerButton =
  name :: string
  cost :: int
  button_position :: "int \<times> int"
  button_size :: "int \<times> int"

definition BLOCKED_TILES :: "GridPosition list" where
  "BLOCKED_TILES =
     [(5, 0), (5, 1), (5, 2), (5, 3), (5, 4), (6, 4), (7, 4), (8, 4), (9, 4), (10, 4),
      (11, 4), (12, 4), (12, 5), (12, 6), (12, 7), (12, 8)]"

definition PREVIEW_OK_COLOR :: Color where
  "PREVIEW_OK_COLOR = (80, 200, 120)"

definition PREVIEW_FORBIDDEN_COLOR :: Color where
  "PREVIEW_FORBIDDEN_COLOR = (210, 80, 80)"

record BuildPreview =
  grid_position :: GridPosition
  pixel_position :: "int \<times> int"
  color :: Color
  can_build :: bool

record BuildManager =
  tile_size :: int
  blocked_tiles :: "GridPosition set"
  selected_button :: "TowerButton option"
  preview :: "BuildPreview option"

text \<open>\<open>__init__\<close>: \<open>blocked_tiles or BLOCKED_TILES\<close> takes the default for \<open>None\<close> and for an
  empty collection.\<close>

definition init_BuildManager :: "int \<Rightarrow> GridPosition list option \<Rightarrow> BuildManager" where
  "init_BuildManager ts blocked =
     \<lparr>tile_size = ts,
      blocked_tiles = set (case blocked of
                             None \<Rightarrow> BLOCKED_TILES
                           | Some bs \<Rightarrow> if bs = [] then BLOCKED_TILES else bs),
      selected_button = None, preview = None\<rparr>"

definition is_building :: "BuildManager \<Rightarrow> bool" where
  "is_building m = (selected_button m \<noteq> None)"

definition begin_build :: "TowerButton \<Rightarrow> int \<Rightarrow> BuildManager \<Rightarrow> bool \<times> BuildManager" where
  "begin_build button money m =
     (if money < cost button then (False, m)
      else (True, m\<lparr>selected_button := Some button, preview := None\<rparr>))"

definition cancel :: "BuildManager \<Rightarrow> BuildManager" where
  "cancel m = m\<lparr>selected_button := None, preview := None\<rparr>"

definition snap_to_grid :: "BuildManager \<Rightarrow> int \<times> int \<Rightarrow> error + GridPosition" where
  "snap_to_grid m pos =
     (if tile_size m = 0 then Inl ZeroDivisionError
      else Inr (fst pos div tile_size m, snd pos div tile_size m))"

definition can_place :: "BuildManager \<Rightarrow> GridPosition \<Rightarrow> GridPosition set \<Rightarrow> int \<Rightarrow> bool" where
  "can_place m gp occupied money =
     (case selected_button m of
        None \<Rightarrow> False
      | Some b \<Rightarrow>
          if money < cost b then False
          else if gp \<in> blocked_tiles m then False
          else gp \<notin> occupied)"

definition update_preview ::
  "int \<times> int \<Rightarrow> GridPosition set \<Rightarrow> int \<Rightarrow> BuildManager
     \<Rightarrow> error + (BuildPreview option \<times> BuildManager)" where
  "update_preview mouse_position occupied_tiles money m =
     (if selected_button m = None then Inr (None, m\<lparr>preview := None\<rparr>)
      else
        case snap_to_grid m mouse_position of
          Inl err \<Rightarrow> Inl err
        | Inr gp \<Rightarrow>
            let can = can_place m gp occupied_tiles money;
                col = (if can then PREVIEW_OK_COLOR else PREVIEW_FORBIDDEN_COLOR);
                pix = (fst gp * tile_size m, snd gp * tile_size m);
                pv = \<lparr>grid_position = gp, pixel_position = pix, color = col, can_build = can\<rparr>
            in Inr (Some pv, m\<lparr>preview := Some pv\<rparr>))"

text \<open>
  \<open>confirm_build\<close> returns the button (or \<open>None\<close>), the set \<open>occupied_tiles\<close> as it is
  afterwards (the source adds to the caller's set in place) and the manager afterwards.
\<close>

definition confirm_build ::
  "GridPosition set \<Rightarrow> int \<Rightarrow> BuildManager
     \<Rightarrow> TowerButton option \<times> GridPosition set \<times> BuildManager" where
  "confirm_build occupied_tiles money m =
     (if preview m = None \<or> selected_button m = None then (None, occupied_tiles, m)
      else if \<not> can_build (the (preview m)) then (None, occupied_tiles, m)
      else if money < cost (the (selected_button m)) then (None, occupied_tiles, m)
      else
        let occupied = insert (grid_position (the (preview m))) occupied_tiles;
            button = selected_button m
        in (button, occupied, cancel m))"

section \<open>Properties of the wave scheduler\<close>

lemma pop_due_sorted:
  "sorted (map snd q) \<Longrightarrow>
   pop_due e q = (map fst (filter (due e) q), filter (pending e) q)"
proof (induction q)
  case Nil
  show ?case by simp
next
  case (Cons sp q)
  obtain ty t where sp: "sp = (ty, t)" by (cases sp)
  from Cons.prems have sq: "sorted (map snd q)" and le: "\<forall>x \<in> set q. t \<le> snd x"
    by (auto simp: sp)
  show ?case
  proof (cases "t \<le> e")
    case True
    then have "due e (ty, t)" and "\<not> pending e (ty, t)"
      by (simp_all add: due_def pending_def)
    with True Cons.IH [OF sq] show ?thesis by (simp add: sp)
  next
    case False
    then have hd: "\<not> due e (ty, t)" "pending e (ty, t)"
      by (simp_all add: due_def pending_def)
    from False le have "\<forall>x \<in> set q. \<not> snd x \<le> e" by fastforce
    then have "filter (due e) q = []" and "filter (pending e) q = q"
      by (auto simp: due_def pending_def filter_empty_conv filter_id_conv)
    with False hd show ?thesis by (simp add: sp)
  qed
qed

lemma pop_due_suffix: "\<exists>k. snd (pop_due e q) = drop k q"
proof (induction q)
  case Nil
  show ?case by simp
next
  case (Cons sp q)
  obtain ty t where sp: "sp = (ty, t)" by (cases sp)
  from Cons.IH obtain k where k: "snd (pop_due e q) = drop k q" by blast
  show ?case
  proof (cases "t \<le> e")
    case True
    with k have "snd (pop_due e (sp # q)) = drop (Suc k) (sp # q)"
      by (cases "pop_due e q") (simp add: sp)
    then show ?thesis by blast
  next
    case False
    then have "snd (pop_due e (sp # q)) = drop 0 (sp # q)" by (simp add: sp)
    then show ?thesis by blast
  qed
qed

lemma inv_init: "wm_inv ws lp (init_WaveManager ws lp)"
  by (simp add: wm_inv_def init_WaveManager_def)

lemma inv_start: "wm_inv ws lp m \<Longrightarrow> wm_inv ws lp (snd (start_next_wave m))"
  unfolding wm_inv_def start_next_wave_def Let_def
  by (auto split: option.splits intro: exI [of _ 0])

lemma inv_reset: "wm_inv ws lp m \<Longrightarrow> wm_inv ws lp (reset m)"
  by (simp add: wm_inv_def reset_def)

lemma inv_update:
  assumes "wm_inv ws lp m" shows "wm_inv ws lp (snd (WaveManager_update dt m))"
proof (cases "state m")
  case None
  with assms show ?thesis by (simp add: WaveManager_update_def)
next
  case (Some st)
  with assms obtain k where k: "spawns st = drop k (sort_key snd (ws ! nat (current_index m)))"
    and nn: "0 \<le> current_index m"
    by (auto simp: wm_inv_def)
  obtain j where j: "snd (pop_due (elapsed st + dt) (spawns st)) = drop j (spawns st)"
    using pop_due_suffix by blast
  have "drop j (spawns st) = drop (j + k) (sort_key snd (ws ! nat (current_index m)))"
    by (simp add: k)
  with j have "snd (pop_due (elapsed st + dt) (spawns st)) =
      drop (j + k) (sort_key snd (ws ! nat (current_index m)))"
    by simp
  with assms Some nn show ?thesis
    by (auto simp: wm_inv_def WaveManager_update_def Let_def split: prod.splits)
qed

lemma inv_load:
  assumes "wm_inv ws lp m" and "wm_inv ws lp m'"
  shows "load_progress (serialize_progress m) m' = (Inr (), m'\<lparr>current_index := current_index m, state := state m\<rparr>)"
  using assms
  by (cases "state m") (auto simp: wm_inv_def load_progress_def serialize_progress_def dict_get_def wave_in_progress_def Let_def)

lemma reachable_inv: "reachable ws lp m \<Longrightarrow> wm_inv ws lp m"
proof (induction rule: reachable.induct)
  case r_init
  show ?case by (rule inv_init)
next
  case (r_start m)
  then show ?case by (simp add: inv_start)
next
  case (r_update m dt)
  then show ?case by (simp add: inv_update)
next
  case (r_reset m)
  then show ?case by (simp add: inv_reset)
next
  case (r_load m m')
  then have "snd (load_progress (serialize_progress m) m') =
      m'\<lparr>current_index := current_index m, state := state m\<rparr>"
    by (simp add: inv_load)
  with r_load.IH show ?case by (simp add: wm_inv_def)
qed

lemma reachable_queue_sorted:
  assumes "reachable ws lp m" and "state m = Some st"
  shows "sorted (map snd (spawns st))"
proof -
  from assms reachable_inv [OF assms(1)]
  obtain k where "spawns st = drop k (sort_key snd (ws ! nat (current_index m)))"
    by (auto simp: wm_inv_def)
  moreover have "sorted (drop k (map snd (sort_key snd (ws ! nat (current_index m)))))"
    by (rule sorted_wrt_drop) (rule sorted_sort_key)
  ultimately show ?thesis by (simp add: drop_map)
qed

text \<open>
  Claim C1. For a manager reached through the public API, \<open>update dt\<close> is a no-op when no
  wave is active. Otherwise it adds \<open>dt\<close> to \<open>elapsed\<close>, calls the spawn callback with the
  enemy type of exactly the queued spawns whose time is at most the new \<open>elapsed\<close>, in
  queue order, and keeps the others; when none is left the runtime state is cleared in
  the same call. The queue is in ascending spawn time and is a suffix of the stable sort
  of the wave's definition, so equal times fire in their original order.
\<close>

theorem update_fires_due_spawns_in_order:
  assumes "reachable ws lp m"
  shows "WaveManager_update dt m =
           (case state m of
              None \<Rightarrow> ([], m)
            | Some st \<Rightarrow>
                (map fst (filter (due (elapsed st + dt)) (spawns st)),
                 m\<lparr>state :=
                     (if filter (pending (elapsed st + dt)) (spawns st) = [] then None
                      else Some \<lparr>spawns = filter (pending (elapsed st + dt)) (spawns st),
                                 elapsed = elapsed st + dt\<rparr>)\<rparr>))
         \<and> (\<forall>st. state m = Some st \<longrightarrow>
               sorted (map snd (spawns st)) \<and>
               (\<exists>k. spawns st = drop k (sort_key snd (ws ! nat (current_index m)))))"
proof (cases "state m")
  case None
  then show ?thesis by (simp add: WaveManager_update_def)
next
  case (Some st)
  have srt: "sorted (map snd (spawns st))"
    using assms Some by (rule reachable_queue_sorted)
  from reachable_inv [OF assms] Some
  have suf: "\<exists>k. spawns st = drop k (sort_key snd (ws ! nat (current_index m)))"
    by (simp add: wm_inv_def)
  have "WaveManager_update dt m =
          (map fst (filter (due (elapsed st + dt)) (spawns st)),
           m\<lparr>state :=
               (if filter (pending (elapsed st + dt)) (spawns st) = [] then None
                else Some \<lparr>spawns = filter (pending (elapsed st + dt)) (spawns st),
                           elapsed = elapsed st + dt\<rparr>)\<rparr>)"
    by (simp add: WaveManager_update_def Some Let_def pop_due_sorted [OF srt])
  with Some srt suf show ?thesis by simp
qed

theorem update_fires_due_spawns_in_order_witness:
  "WaveManager_update 1
     (snd (start_next_wave (init_WaveManager [[(''b'', 2), (''a'', 1), (''c'', 1)]] False))) =
     ([''a'', ''c''],
      \<lparr>waves = [[(''a'', 1), (''c'', 1), (''b'', 2)]], loop_waves = False, current_index = 0,
       state = Some \<lparr>spawns = [(''b'', 2)], elapsed = 1\<rparr>\<rparr>)
   \<and> WaveManager_update 2
     (snd (start_next_wave (init_WaveManager [[(''b'', 2), (''a'', 1), (''c'', 1)]] False))) =
     ([''a'', ''c'', ''b''],
      \<lparr>waves = [[(''a'', 1), (''c'', 1), (''b'', 2)]], loop_waves = False, current_index = 0,
       state = None\<rparr>)"
  using update_fires_due_spawns_in_order
          [OF r_start [OF r_init [of "[[(''b'', 2), (''a'', 1), (''c'', 1)]]" False]],
           where dt = 1]
        update_fires_due_spawns_in_order
          [OF r_start [OF r_init [of "[[(''b'', 2), (''a'', 1), (''c'', 1)]]" False]],
           where dt = 2]
  by (simp add: start_next_wave_def init_WaveManager_def Let_def due_def pending_def)

text \<open>
  Claim C7. \<open>load_progress\<close> raises the invalid-index \<open>ValueError\<close> exactly when the
  snapshot's index (default \<open>-1\<close>) lies outside \<open>[-1, len(waves) - 1]\<close>, returns normally
  exactly when it lies inside, and when it raises the manager is unchanged.
\<close>

theorem load_progress_rejects_out_of_range:
  "(fst (load_progress d m) = Inl (ValueError ''Invalid wave index in progress data'')
      \<longleftrightarrow> \<not> (- 1 \<le> dict_get (pd_current_index d) (- 1)
             \<and> dict_get (pd_current_index d) (- 1) \<le> int (length (waves m)) - 1))
   \<and> (fst (load_progress d m) = Inr ()
      \<longleftrightarrow> (- 1 \<le> dict_get (pd_current_index d) (- 1)
             \<and> dict_get (pd_current_index d) (- 1) \<le> int (length (waves m)) - 1))
   \<and> (\<forall>err. fst (load_progress d m) = Inl err \<longrightarrow> snd (load_progress d m) = m)"
  by (auto simp: load_progress_def Let_def)

theorem load_progress_rejects_out_of_range_witness:
  "load_progress
     \<lparr>pd_current_index = Some 2, pd_wave_in_progress = Some True,
      pd_remaining_spawns = Some [(''a'', 1)], pd_elapsed = Some 0\<rparr>
     (snd (start_next_wave (init_WaveManager [[(''x'', 0), (''y'', 3)], []] False))) =
   (Inl (ValueError ''Invalid wave index in progress data''),
    \<lparr>waves = [[(''x'', 0), (''y'', 3)], []], loop_waves = False, current_index = 0,
     state = Some \<lparr>spawns = [(''x'', 0), (''y'', 3)], elapsed = 0\<rparr>\<rparr>)"
  using load_progress_rejects_out_of_range
          [of "\<lparr>pd_current_index = Some 2, pd_wave_in_progress = Some True,
                pd_remaining_spawns = Some [(''a'', 1)], pd_elapsed = Some 0\<rparr>"
              "snd (start_next_wave (init_WaveManager [[(''x'', 0), (''y'', 3)], []] False))"]
  by (simp add: start_next_wave_def init_WaveManager_def Let_def dict_get_def prod_eq_iff)

text \<open>
  Claim C10. For every manager reached through the public API, loading the snapshot that
  \<open>serialize_progress\<close> makes of it succeeds and leaves the manager equal to what it was:
  same index, same wave-in-progress state, same queue and same elapsed time.
\<close>

theorem serialize_load_roundtrip:
  assumes "reachable ws lp m"
  shows "load_progress (serialize_progress m) m = (Inr (), m)"
proof -
  have "wm_inv ws lp m" using assms by (rule reachable_inv)
  then have "load_progress (serialize_progress m) m =
      (Inr (), m\<lparr>current_index := current_index m, state := state m\<rparr>)"
    by (rule inv_load [OF _ \<open>wm_inv ws lp m\<close>])
  then show ?thesis by simp
qed

theorem serialize_load_roundtrip_witness:
  "load_progress
     (serialize_progress
        (snd (WaveManager_update 1
           (snd (start_next_wave (init_WaveManager [[(''b'', 2), (''a'', 1)]] False))))))
     (snd (WaveManager_update 1
           (snd (start_next_wave (init_WaveManager [[(''b'', 2), (''a'', 1)]] False))))) =
   (Inr (),
    \<lparr>waves = [[(''a'', 1), (''b'', 2)]], loop_waves = False, current_index = 0,
     state = Some \<lparr>spawns = [(''b'', 2)], elapsed = 1\<rparr>\<rparr>)"
  using serialize_load_roundtrip
          [OF r_update [OF r_start [OF r_init [of "[[(''b'', 2), (''a'', 1)]]" False]],
                       where dt = 1]]
  by (simp add: WaveManager_update_def start_next_wave_def init_WaveManager_def Let_def)

section \<open>Properties of enemy movement\<close>

lemma AnimationState_loop_terminates:
  "frame_time a > 0 \<Longrightarrow> \<exists>a'. AnimationState_loop a = Some a'"
proof (induction "nat \<lfloor>current_time a / frame_time a\<rfloor>" arbitrary: a rule: less_induct)
  case less
  show ?case
  proof (cases "current_time a \<ge> frame_time a")
    case False
    then show ?thesis by (subst AnimationState_loop.simps) simp
  next
    case True
    define a2 where "a2 = a\<lparr>current_time := current_time a - frame_time a,
        current_frame_index := (current_frame_index a + 1) mod int (length (frames a))\<rparr>"
    have ft: "frame_time a2 = frame_time a" and ct: "current_time a2 = current_time a - frame_time a"
      by (simp_all add: a2_def)
    from True less.prems have ge1: "1 \<le> current_time a / frame_time a"
      by (simp add: le_divide_eq)
    have "current_time a2 / frame_time a2 = current_time a / frame_time a - 1"
      using less.prems by (simp add: ft ct diff_divide_distrib)
    then have "\<lfloor>current_time a2 / frame_time a2\<rfloor> = \<lfloor>current_time a / frame_time a\<rfloor> - 1"
      by simp
    moreover from ge1 have "1 \<le> \<lfloor>current_time a / frame_time a\<rfloor>" by (simp add: le_floor_iff)
    ultimately have "nat \<lfloor>current_time a2 / frame_time a2\<rfloor> < nat \<lfloor>current_time a / frame_time a\<rfloor>"
      by simp
    from less.hyps [OF this] less.prems ft obtain a' where "AnimationState_loop a2 = Some a'"
      by auto
    with True show ?thesis
      by (subst AnimationState_loop.simps) (simp add: a2_def)
  qed
qed

lemma AnimationState_update_terminates:
  "frame_time a > 0 \<Longrightarrow> \<exists>a'. AnimationState_update dt a = Some a'"
  by (simp add: AnimationState_update_def AnimationState_loop_terminates)

lemma AnimationState_update_zero:
  "current_time a < frame_time a \<Longrightarrow> AnimationState_update 0 a = Some a"
  by (simp add: AnimationState_update_def AnimationState_loop.simps)

text \<open>One pass of the loop from a waypoint the enemy stands on, when a next waypoint exists.\<close>

lemma move_loop_on_waypoint:
  assumes "r > 0" and "\<not> reached_goal e" and "position e = target_waypoint e"
    and "waypoint_index e + 1 < length (waypoints e)"
  shows "move_loop r e player =
         move_loop r (e\<lparr>position := target_waypoint e, waypoint_index := waypoint_index e + 1\<rparr>) player"
  using assms by (subst move_loop.simps) (simp add: Let_def)

lemma move_loop_on_last_waypoint:
  assumes "r > 0" and "\<not> reached_goal e" and "position e = target_waypoint e"
    and "waypoint_index e + 1 \<ge> length (waypoints e)"
  shows "move_loop r e player = on_goal_reached e player"
  using assms(1,2,4) assms(3) [symmetric] by (subst move_loop.simps) (simp add: Let_def)

lemma move_loop_reaches_last_waypoint:
  assumes "r > 0" and "\<not> reached_goal e"
    and "sqrt ((fst (target_waypoint e) - fst (position e))\<^sup>2 +
               (snd (target_waypoint e) - snd (position e))\<^sup>2) \<le> r"
    and "waypoint_index e + 1 \<ge> length (waypoints e)"
  shows "move_loop r e player = on_goal_reached (e\<lparr>position := target_waypoint e\<rparr>) player"
  using assms by (subst move_loop.simps) (simp add: Let_def)

lemma init_BaseEnemy_fields:
  assumes "init_BaseEnemy wps spd hp fr tol = Inr e"
  shows "waypoints e = wps" and "waypoint_index e = 0" and "position e = hd wps"
    and "speed e = spd" and "alive e" and "\<not> reached_goal e"
    and "frame_time (animation e) = 1 / 10" and "current_time (animation e) = 0"
    and "wps \<noteq> []"
  using assms by (auto simp: init_BaseEnemy_def split: if_splits)

text \<open>
  Claim C9. An enemy constructed on a single-waypoint path, with a positive speed: for
  every \<open>dt > 0\<close> its first \<open>update\<close> returns, leaves position and waypoint index as they
  were, sets \<open>reached_goal\<close>, and takes exactly one life from a player that has lives
  (only the animation bookkeeping changes besides). With \<open>dt = 0\<close> nothing changes.
\<close>

theorem single_waypoint_enemy_leaks_at_once:
  assumes "init_BaseEnemy [w] spd hp fr tol = Inr e" and "spd > 0"
  shows "(dt > 0 \<longrightarrow>
           (\<exists>a'. AnimationState_update dt (animation e) = Some a' \<and>
                 BaseEnemy_update dt e None =
                   Some (e\<lparr>animation := a', reached_goal := True\<rparr>, None) \<and>
                 (\<forall>p. lives p > 0 \<longrightarrow>
                      BaseEnemy_update dt e (Some p) =
                        Some (e\<lparr>animation := a', reached_goal := True\<rparr>,
                              Some (p\<lparr>lives := lives p - 1\<rparr>)))))
         \<and> BaseEnemy_update 0 e player = Some (e, player)"
proof -
  note f = init_BaseEnemy_fields [OF assms(1)]
  have zero: "BaseEnemy_update 0 e player = Some (e, player)"
    using f by (simp add: BaseEnemy_update_def AnimationState_update_zero move_loop.simps)
  have pos: "dt > 0 \<longrightarrow>
           (\<exists>a'. AnimationState_update dt (animation e) = Some a' \<and>
                 BaseEnemy_update dt e None =
                   Some (e\<lparr>animation := a', reached_goal := True\<rparr>, None) \<and>
                 (\<forall>p. lives p > 0 \<longrightarrow>
                      BaseEnemy_update dt e (Some p) =
                        Some (e\<lparr>animation := a', reached_goal := True\<rparr>,
                              Some (p\<lparr>lives := lives p - 1\<rparr>))))"
  proof
    assume dt: "dt > 0"
    from f obtain a' where a': "AnimationState_update dt (animation e) = Some a'"
      using AnimationState_update_terminates [of "animation e" dt] by auto
    let ?e = "e\<lparr>animation := a'\<rparr>"
    from dt assms(2) have r: "spd * dt > 0" by simp
    have loop: "move_loop (spd * dt) ?e pl = on_goal_reached ?e pl" for pl
      using r f by (intro move_loop_on_last_waypoint) (simp_all add: target_waypoint_def)
    have "BaseEnemy_update dt e pl = Some (on_goal_reached ?e pl)" for pl
      using f a' loop by (simp add: BaseEnemy_update_def)
    then show "\<exists>a'. AnimationState_update dt (animation e) = Some a' \<and>
                 BaseEnemy_update dt e None =
                   Some (e\<lparr>animation := a', reached_goal := True\<rparr>, None) \<and>
                 (\<forall>p. lives p > 0 \<longrightarrow>
                      BaseEnemy_update dt e (Some p) =
                        Some (e\<lparr>animation := a', reached_goal := True\<rparr>,
                              Some (p\<lparr>lives := lives p - 1\<rparr>)))"
      using a' by (auto simp: on_goal_reached_def lose_life_def)
  qed
  from pos zero show ?thesis by blast
qed

text \<open>
  Claim C2. An enemy constructed on a two-waypoint path \<open>[a, b]\<close> whose segment has length
  \<open>L\<close>: for every speed and \<open>dt\<close>, both positive, with \<open>speed * dt \<ge> L\<close>, one \<open>update\<close>
  returns with the position exactly \<open>b\<close> and the waypoint index \<open>1\<close> (and the goal reached).
\<close>

theorem two_waypoint_enemy_snaps_to_goal:
  assumes "init_BaseEnemy [a, b] spd hp fr tol = Inr e"
    and "spd > 0" and "dt > 0"
    and "spd * dt \<ge> sqrt ((fst b - fst a)\<^sup>2 + (snd b - snd a)\<^sup>2)"
  shows "\<exists>a'. AnimationState_update dt (animation e) = Some a' \<and>
              BaseEnemy_update dt e player =
                Some (e\<lparr>animation := a', position := b, waypoint_index := 1,
                        reached_goal := True\<rparr>,
                      (case player of None \<Rightarrow> None | Some p \<Rightarrow> Some (lose_life p)))"
proof -
  note f = init_BaseEnemy_fields [OF assms(1)]
  from f obtain a' where a': "AnimationState_update dt (animation e) = Some a'"
    using AnimationState_update_terminates [of "animation e" dt] by auto
  let ?e = "e\<lparr>animation := a'\<rparr>"
  let ?e1 = "?e\<lparr>position := target_waypoint ?e, waypoint_index := waypoint_index ?e + 1\<rparr>"
  from assms(2,3) have r: "spd * dt > 0" by simp
  have step1: "move_loop (spd * dt) ?e player = move_loop (spd * dt) ?e1 player"
    using r f by (intro move_loop_on_waypoint) (simp_all add: target_waypoint_def)
  have e1: "position ?e1 = a" "target_waypoint ?e1 = b" "waypoint_index ?e1 = 1"
    using f by (simp_all add: target_waypoint_def)
  have step2: "move_loop (spd * dt) ?e1 player =
      on_goal_reached (?e1\<lparr>position := target_waypoint ?e1\<rparr>) player"
    using r f assms(4) by (intro move_loop_reaches_last_waypoint) (simp_all add: target_waypoint_def)
  have "BaseEnemy_update dt e player =
      Some (on_goal_reached (?e1\<lparr>position := target_waypoint ?e1\<rparr>) player)"
    using f a' step1 step2 by (simp add: BaseEnemy_update_def)
  also have "on_goal_reached (?e1\<lparr>position := target_waypoint ?e1\<rparr>) player =
      (e\<lparr>animation := a', position := b, waypoint_index := 1, reached_goal := True\<rparr>,
       (case player of None \<Rightarrow> None | Some p \<Rightarrow> Some (lose_life p)))"
    using f by (simp add: on_goal_reached_def target_waypoint_def)
  finally show ?thesis using a' by simp
qed

theorem single_waypoint_enemy_leaks_at_once_witness:
  "(\<exists>a'. BaseEnemy_update 1
           \<lparr>waypoints = [(2, 3)], waypoint_index = 0, position = (2, 3), speed = 1, health = 10,
         alive = True, arrival_tolerance = 1,
         animation = \<lparr>frames = [], frame_time = 1 / 10, current_time = 0,
                      current_frame_index = 0\<rparr>,
         reached_goal = False\<rparr> None =
         Some (\<lparr>waypoints = [(2, 3)], waypoint_index = 0, position = (2, 3), speed = 1, health = 10,
         alive = True, arrival_tolerance = 1,
         animation = \<lparr>frames = [], frame_time = 1 / 10, current_time = 0,
                      current_frame_index = 0\<rparr>,
         reached_goal = False\<rparr>\<lparr>animation := a', reached_goal := True\<rparr>, None) \<and>
         BaseEnemy_update 1
           \<lparr>waypoints = [(2, 3)], waypoint_index = 0, position = (2, 3), speed = 1, health = 10,
         alive = True, arrival_tolerance = 1,
         animation = \<lparr>frames = [], frame_time = 1 / 10, current_time = 0,
                      current_frame_index = 0\<rparr>,
         reached_goal = False\<rparr> (Some \<lparr>lives = 3\<rparr>) =
         Some (\<lparr>waypoints = [(2, 3)], waypoint_index = 0, position = (2, 3), speed = 1, health = 10,
         alive = True, arrival_tolerance = 1,
         animation = \<lparr>frames = [], frame_time = 1 / 10, current_time = 0,
                      current_frame_index = 0\<rparr>,
         reached_goal = False\<rparr>\<lparr>animation := a', reached_goal := True\<rparr>, Some \<lparr>lives = 2\<rparr>))
   \<and> BaseEnemy_update 0
         \<lparr>waypoints = [(2, 3)], waypoint_index = 0, position = (2, 3), speed = 1, health = 10,
         alive = True, arrival_tolerance = 1,
         animation = \<lparr>frames = [], frame_time = 1 / 10, current_time = 0,
                      current_frame_index = 0\<rparr>,
         reached_goal = False\<rparr> (Some \<lparr>lives = 3\<rparr>) =
       Some (\<lparr>waypoints = [(2, 3)], waypoint_index = 0, position = (2, 3), speed = 1, health = 10,
         alive = True, arrival_tolerance = 1,
         animation = \<lparr>frames = [], frame_time = 1 / 10, current_time = 0,
                      current_frame_index = 0\<rparr>,
         reached_goal = False\<rparr>, Some \<lparr>lives = 3\<rparr>)"
proof -
  have h: "init_BaseEnemy [(2, 3)] 1 10 None 1 = Inr
        \<lparr>waypoints = [(2, 3)], waypoint_index = 0, position = (2, 3), speed = 1, health = 10,
         alive = True, arrival_tolerance = 1,
         animation = \<lparr>frames = [], frame_time = 1 / 10, current_time = 0,
                      current_frame_index = 0\<rparr>,
         reached_goal = False\<rparr>"
    by (simp add: init_BaseEnemy_def)
  have s: "(0::real) < 1" by simp
  from single_waypoint_enemy_leaks_at_once [OF h s, of 1 "Some \<lparr>lives = 3\<rparr>"]
  show ?thesis by fastforce
qed

theorem two_waypoint_enemy_snaps_to_goal_witness:
  "\<exists>a'. BaseEnemy_update 1
          \<lparr>waypoints = [(0, 0), (1, 0)], waypoint_index = 0, position = (0, 0), speed = 2,
         health = 10, alive = True, arrival_tolerance = 1 / 2,
         animation = \<lparr>frames = [], frame_time = 1 / 10, current_time = 0,
                      current_frame_index = 0\<rparr>,
         reached_goal = False\<rparr> (Some \<lparr>lives = 3\<rparr>) =
        Some (\<lparr>waypoints = [(0, 0), (1, 0)], waypoint_index = 0, position = (0, 0), speed = 2,
         health = 10, alive = True, arrival_tolerance = 1 / 2,
         animation = \<lparr>frames = [], frame_time = 1 / 10, current_time = 0,
                      current_frame_index = 0\<rparr>,
         reached_goal = False\<rparr>\<lparr>animation := a', position := (1, 0), waypoint_index := 1,
                 reached_goal := True\<rparr>,
              Some \<lparr>lives = 2\<rparr>)"
proof -
  have h: "init_BaseEnemy [(0, 0), (1, 0)] 2 10 None (1 / 2) = Inr
        \<lparr>waypoints = [(0, 0), (1, 0)], waypoint_index = 0, position = (0, 0), speed = 2,
         health = 10, alive = True, arrival_tolerance = 1 / 2,
         animation = \<lparr>frames = [], frame_time = 1 / 10, current_time = 0,
                      current_frame_index = 0\<rparr>,
         reached_goal = False\<rparr>"
    by (simp add: init_BaseEnemy_def)
  have s: "(0::real) < 2" and d: "(0::real) < 1" by simp_all
  have l: "sqrt ((fst (1::real, 0::real) - fst (0::real, 0::real))\<^sup>2 +
                 (snd (1::real, 0::real) - snd (0::real, 0::real))\<^sup>2) \<le> 2 * 1"
    by simp
  from two_waypoint_enemy_snaps_to_goal [OF h s d l, of "Some \<lparr>lives = 3\<rparr>"]
  show ?thesis by (auto simp: lose_life_def)
qed

section \<open>Properties of difficulty scaling\<close>

lemma py_round_int_bounds: "\<lfloor>x\<rfloor> \<le> py_round_int x \<and> py_round_int x \<le> \<lfloor>x\<rfloor> + 1"
  by (simp add: py_round_int_def Let_def)

lemma py_round_int_mono:
  assumes "x \<le> y" shows "py_round_int x \<le> py_round_int y"
proof (cases "\<lfloor>x\<rfloor> = \<lfloor>y\<rfloor>")
  case True
  from assms have "x - of_int \<lfloor>y\<rfloor> \<le> y - of_int \<lfloor>y\<rfloor>" by simp
  with True show ?thesis by (auto simp: py_round_int_def Let_def)
next
  case False
  with assms have "\<lfloor>x\<rfloor> < \<lfloor>y\<rfloor>" using floor_mono [OF assms] by linarith
  then have "py_round_int x \<le> \<lfloor>y\<rfloor>" using py_round_int_bounds [of x] by linarith
  also have "\<dots> \<le> py_round_int y" using py_round_int_bounds [of y] by simp
  finally show ?thesis .
qed

lemma py_round_int_nonneg: "0 \<le> x \<Longrightarrow> 0 \<le> py_round_int x"
  by (simp add: py_round_int_def Let_def)

text \<open>Facts about the rounding to a double.\<close>

lemma pow2_pos: "0 < pow2 k"
  by (simp add: pow2_def)

lemma pow2_powr: "pow2 k = 2 powr real_of_int k"
proof (cases "k \<ge> 0")
  case True
  then have "real_of_int k = real (nat k)" by simp
  then have "2 powr real_of_int k = 2 ^ nat k" by (simp only: powr_realpow)
  with True show ?thesis by (simp add: pow2_def)
next
  case False
  then have "real_of_int k = - real (nat (- k))" by simp
  then have "2 powr real_of_int k = 1 / 2 ^ nat (- k)"
    by (simp only: powr_minus powr_realpow) (simp add: powr_realpow field_simps)
  with False show ?thesis by (simp add: pow2_def)
qed

lemma pow2_add: "pow2 (a + b) = pow2 a * pow2 b"
  by (simp add: pow2_powr powr_add)

lemma pow2_mono: "a \<le> b \<Longrightarrow> pow2 a \<le> pow2 b"
  by (simp add: pow2_powr)

lemma binade:
  assumes "0 < x"
  shows "pow2 \<lfloor>log 2 x\<rfloor> \<le> x" and "x < pow2 (\<lfloor>log 2 x\<rfloor> + 1)"
proof -
  have "real_of_int \<lfloor>log 2 x\<rfloor> \<le> log 2 x" by simp
  then show "pow2 \<lfloor>log 2 x\<rfloor> \<le> x"
    using assms by (simp add: pow2_powr le_log_iff del: of_int_floor_le)
  have "log 2 x < real_of_int (\<lfloor>log 2 x\<rfloor> + 1)" by linarith
  then have "x < 2 powr real_of_int (\<lfloor>log 2 x\<rfloor> + 1)"
    using assms log_less_iff [of 2 x "real_of_int (\<lfloor>log 2 x\<rfloor> + 1)"] by simp
  then show "x < pow2 (\<lfloor>log 2 x\<rfloor> + 1)" by (simp only: pow2_powr)
qed

lemma double_round_eval:
  assumes "pow2 k \<le> \<bar>x\<bar>" and "\<bar>x\<bar> < pow2 (k + 1)"
  shows "double_round x = of_int (py_round_int (x / pow2 (k - 52))) * pow2 (k - 52)"
proof -
  from assms(1) pow2_pos [of k] have pos: "0 < \<bar>x\<bar>" by linarith
  then have nz: "x \<noteq> 0" by auto
  have "real_of_int k \<le> log 2 \<bar>x\<bar>"
    using assms(1) pos by (simp add: le_log_iff pow2_powr)
  moreover have "log 2 \<bar>x\<bar> < real_of_int k + 1"
    using assms(2) pos by (simp add: log_less_iff pow2_powr)
  ultimately have "\<lfloor>log 2 \<bar>x\<bar>\<rfloor> = k" by (simp add: floor_eq_iff)
  with nz show ?thesis by (simp add: double_round_def Let_def)
qed

lemma double_round_nonneg: "0 \<le> x \<Longrightarrow> 0 \<le> double_round x"
  using pow2_pos by (simp add: double_round_def Let_def py_round_int_nonneg less_imp_le)

text \<open>A positive real and its double lie in the same binade, ends included.\<close>

lemma double_round_binade:
  assumes "0 < x"
  shows "pow2 \<lfloor>log 2 x\<rfloor> \<le> double_round x" and "double_round x \<le> pow2 (\<lfloor>log 2 x\<rfloor> + 1)"
proof -
  let ?k = "\<lfloor>log 2 x\<rfloor>"
  let ?u = "pow2 (?k - 52)"
  have u: "0 < ?u" by (rule pow2_pos)
  have p: "pow2 52 = 2 ^ 52" "pow2 53 = 2 ^ 53" by (simp_all add: pow2_def)
  have "pow2 (52 + (?k - 52)) = 2 ^ 52 * ?u" "pow2 (53 + (?k - 52)) = 2 ^ 53 * ?u"
    by (simp_all only: pow2_add p)
  moreover have "52 + (?k - 52) = ?k" "53 + (?k - 52) = ?k + 1" by simp_all
  ultimately have k: "pow2 ?k = 2 ^ 52 * ?u" and k1: "pow2 (?k + 1) = 2 ^ 53 * ?u"
    by simp_all
  have dr: "double_round x = of_int (py_round_int (x / ?u)) * ?u"
    using assms by (simp add: double_round_def Let_def)
  from binade [OF assms] have "2 ^ 52 * ?u \<le> x" and "x < 2 ^ 53 * ?u"
    by (simp_all add: k k1)
  with u have lo: "2 ^ 52 \<le> x / ?u" and hi: "x / ?u < 2 ^ 53"
    by (simp_all add: le_divide_eq divide_less_eq)
  from lo have "(2 ^ 52 :: int) \<le> \<lfloor>x / ?u\<rfloor>" by (simp add: le_floor_iff)
  with py_round_int_bounds [of "x / ?u"] have "(2 ^ 52 :: int) \<le> py_round_int (x / ?u)"
    by linarith
  then have "(2 ^ 52 :: real) \<le> of_int (py_round_int (x / ?u))"
    by (metis of_int_le_iff of_int_numeral of_int_power)
  with u show "pow2 ?k \<le> double_round x" by (simp add: dr k)
  from hi have "\<lfloor>x / ?u\<rfloor> < (2 ^ 53 :: int)" by (simp add: floor_less_iff)
  with py_round_int_bounds [of "x / ?u"] have "py_round_int (x / ?u) \<le> (2 ^ 53 :: int)"
    by linarith
  then have "of_int (py_round_int (x / ?u)) \<le> (2 ^ 53 :: real)"
    by (metis of_int_le_iff of_int_numeral of_int_power)
  with u show "double_round x \<le> pow2 (?k + 1)" by (simp add: dr k1)
qed

lemma double_round_mono:
  assumes "0 \<le> x" and "x \<le> y"
  shows "double_round x \<le> double_round y"
proof (cases "x = 0")
  case True
  have "double_round 0 = 0" by (simp add: double_round_def)
  with True assms double_round_nonneg [of y] show ?thesis by simp
next
  case False
  with assms have x: "0 < x" and y: "0 < y" by simp_all
  from x assms(2) have "log 2 x \<le> log 2 y" by simp
  then have kk: "\<lfloor>log 2 x\<rfloor> \<le> \<lfloor>log 2 y\<rfloor>" by (rule floor_mono)
  show ?thesis
  proof (cases "\<lfloor>log 2 x\<rfloor> = \<lfloor>log 2 y\<rfloor>")
    case True
    let ?u = "pow2 (\<lfloor>log 2 y\<rfloor> - 52)"
    have u: "0 < ?u" by (rule pow2_pos)
    with assms(2) have "x / ?u \<le> y / ?u" by (simp add: divide_right_mono)
    then have "py_round_int (x / ?u) \<le> py_round_int (y / ?u)" by (rule py_round_int_mono)
    then have "real_of_int (py_round_int (x / ?u)) * ?u \<le> real_of_int (py_round_int (y / ?u)) * ?u"
      using u by (simp add: mult_right_mono)
    with x y True show ?thesis by (simp add: double_round_def Let_def)
  next
    case False
    with kk have "\<lfloor>log 2 x\<rfloor> + 1 \<le> \<lfloor>log 2 y\<rfloor>" by simp
    then have "pow2 (\<lfloor>log 2 x\<rfloor> + 1) \<le> pow2 \<lfloor>log 2 y\<rfloor>" by (rule pow2_mono)
    with double_round_binade(2) [OF x] double_round_binade(1) [OF y] show ?thesis by linarith
  qed
qed

lemma double_round_one: "double_round 1 = 1"
  by (subst double_round_eval [where k = 0])
     (simp_all add: pow2_def py_round_int_def Let_def)

lemma py_round_mono:
  assumes "0 \<le> x" and "x \<le> y"
  shows "py_round x n \<le> py_round y n"
proof -
  from assms(1) have "0 \<le> x * 10 ^ n" by simp
  then have "0 \<le> real_of_int (py_round_int (x * 10 ^ n)) / 10 ^ n"
    by (simp add: py_round_int_nonneg)
  moreover from assms(2) have "x * 10 ^ n \<le> y * 10 ^ n" by (simp add: mult_right_mono)
  then have "real_of_int (py_round_int (x * 10 ^ n)) / 10 ^ n
      \<le> real_of_int (py_round_int (y * 10 ^ n)) / 10 ^ n"
    by (simp add: divide_right_mono py_round_int_mono)
  ultimately show ?thesis unfolding py_round_def by (rule double_round_mono)
qed

lemma double_round_zero: "double_round 0 = 0"
  by (simp add: double_round_def)

lemma py_int_nonneg: "0 \<le> x \<Longrightarrow> py_int x = \<lfloor>x\<rfloor>"
  by (simp add: py_int_def)

text \<open>The multipliers for a wave number from 1.\<close>

lemma py_pow_nonneg: "0 \<le> n \<Longrightarrow> py_pow x n = Inr (double_round (x ^ nat n))"
  by (simp add: py_pow_def)

lemma multipliers_ok:
  assumes "1 \<le> w"
  shows "health_multiplier c w = Inr (double_multiplier (health_growth c) w)"
    and "speed_multiplier c w = Inr (double_multiplier (speed_growth c) w)"
    and "count_multiplier c w = Inr (double_multiplier (count_growth c) w)"
  using assms
  by (simp_all add: health_multiplier_def speed_multiplier_def count_multiplier_def
      double_multiplier_def py_pow_nonneg)

lemma multiplier_base_ge_one:
  assumes "0 \<le> g" shows "1 \<le> float_add 1 (double_round g)"
proof -
  from assms have "0 \<le> double_round g" by (rule double_round_nonneg)
  then have "double_round 1 \<le> double_round (1 + double_round g)"
    by (intro double_round_mono) simp_all
  then show ?thesis by (simp add: float_add_def double_round_one)
qed

lemma double_multiplier_nonneg: "0 \<le> g \<Longrightarrow> 0 \<le> double_multiplier g w"
  using multiplier_base_ge_one [of g]
  by (simp add: double_multiplier_def double_round_nonneg)

lemma double_multiplier_mono:
  assumes "0 \<le> g" and "1 \<le> w1" and "w1 \<le> w2"
  shows "double_multiplier g w1 \<le> double_multiplier g w2"
proof -
  let ?b = "float_add 1 (double_round g)"
  from assms(1) have b: "1 \<le> ?b" by (rule multiplier_base_ge_one)
  from assms(2,3) have "nat (w1 - 1) \<le> nat (w2 - 1)" by simp
  then have "?b ^ nat (w1 - 1) \<le> ?b ^ nat (w2 - 1)" using b by (rule power_increasing)
  moreover from b have "0 \<le> ?b ^ nat (w1 - 1)" by simp
  ultimately show ?thesis unfolding double_multiplier_def by (intro double_round_mono)
qed

lemma zero_growth_multiplier: "double_multiplier 0 w = 1"
  by (simp add: double_multiplier_def float_add_def double_round_zero double_round_one)

text \<open>The double operations of the scaling on the default curve at wave 2.\<close>

lemma default_health_stored: "double_round (11 / 50) = 7926335344172073 / 36028797018963968"
  by (subst double_round_eval [where k = "- 3"])
     (simp_all add: pow2_def py_round_int_def Let_def)

lemma default_health_base: "float_add 1 (7926335344172073 / 36028797018963968) = 5494391545392005 / 4503599627370496"
  unfolding float_add_def
  by (subst double_round_eval [where k = 0])
     (simp_all add: pow2_def py_round_int_def Let_def)

lemma default_health_power: "double_round (5494391545392005 / 4503599627370496) = 5494391545392005 / 4503599627370496"
  by (subst double_round_eval [where k = 0])
     (simp_all add: pow2_def py_round_int_def Let_def)

lemma default_health_excess: "float_sub (5494391545392005 / 4503599627370496) 1 = 990791918021509 / 4503599627370496"
  unfolding float_sub_def
  by (subst double_round_eval [where k = "- 3"])
     (simp_all add: pow2_def py_round_int_def Let_def)

lemma default_health_percent: "float_mul (990791918021509 / 4503599627370496) 100 = 6192449487634431 / 281474976710656"
  unfolding float_mul_def
  by (subst double_round_eval [where k = 4])
     (simp_all add: pow2_def py_round_int_def Let_def)

lemma default_speed_stored: "double_round (1 / 20) = 3602879701896397 / 72057594037927936"
  by (subst double_round_eval [where k = "- 5"])
     (simp_all add: pow2_def py_round_int_def Let_def)

lemma default_speed_base: "float_add 1 (3602879701896397 / 72057594037927936) = 4728779608739021 / 4503599627370496"
  unfolding float_add_def
  by (subst double_round_eval [where k = 0])
     (simp_all add: pow2_def py_round_int_def Let_def)

lemma default_speed_power: "double_round (4728779608739021 / 4503599627370496) = 4728779608739021 / 4503599627370496"
  by (subst double_round_eval [where k = 0])
     (simp_all add: pow2_def py_round_int_def Let_def)

lemma default_speed_excess: "float_sub (4728779608739021 / 4503599627370496) 1 = 225179981368525 / 4503599627370496"
  unfolding float_sub_def
  by (subst double_round_eval [where k = "- 5"])
     (simp_all add: pow2_def py_round_int_def Let_def)

lemma default_speed_percent: "float_mul (225179981368525 / 4503599627370496) 100 = 5629499534213125 / 1125899906842624"
  unfolding float_mul_def
  by (subst double_round_eval [where k = 2])
     (simp_all add: pow2_def py_round_int_def Let_def)

lemma default_count_stored: "double_round (2 / 25) = 5764607523034235 / 72057594037927936"
  by (subst double_round_eval [where k = "- 4"])
     (simp_all add: pow2_def py_round_int_def Let_def)

lemma default_count_base: "float_add 1 (5764607523034235 / 72057594037927936) = 607985949695017 / 562949953421312"
  unfolding float_add_def
  by (subst double_round_eval [where k = 0])
     (simp_all add: pow2_def py_round_int_def Let_def)

lemma default_count_power: "double_round (607985949695017 / 562949953421312) = 607985949695017 / 562949953421312"
  by (subst double_round_eval [where k = 0])
     (simp_all add: pow2_def py_round_int_def Let_def)

lemma default_scaled_health_value_stored: "double_round 100 = 100"
  by (subst double_round_eval [where k = 6])
     (simp_all add: pow2_def py_round_int_def Let_def)

lemma default_scaled_health_product: "float_mul 100 (5494391545392005 / 4503599627370496) = 122"
  unfolding float_mul_def
  by (subst double_round_eval [where k = 6])
     (simp_all add: pow2_def py_round_int_def Let_def)

lemma default_scaled_health_rounded: "double_round 122 = 122"
  by (subst double_round_eval [where k = 6])
     (simp_all add: pow2_def py_round_int_def Let_def)

lemma default_scaled_speed_value_stored: "double_round 60 = 60"
  by (subst double_round_eval [where k = 5])
     (simp_all add: pow2_def py_round_int_def Let_def)

lemma default_scaled_speed_product: "float_mul 60 (4728779608739021 / 4503599627370496) = 63"
  unfolding float_mul_def
  by (subst double_round_eval [where k = 5])
     (simp_all add: pow2_def py_round_int_def Let_def)

lemma default_scaled_speed_rounded: "double_round 63 = 63"
  by (subst double_round_eval [where k = 5])
     (simp_all add: pow2_def py_round_int_def Let_def)

lemma default_scaled_count_value_stored: "double_round 5 = 5"
  by (subst double_round_eval [where k = 2])
     (simp_all add: pow2_def py_round_int_def Let_def)

lemma default_scaled_count_product: "float_mul 5 (607985949695017 / 562949953421312) = 3039929748475085 / 562949953421312"
  unfolding float_mul_def
  by (subst double_round_eval [where k = 2])
     (simp_all add: pow2_def py_round_int_def Let_def)

lemma default_multipliers:
  "health_multiplier default_DifficultyCurve 2 = Inr (5494391545392005 / 4503599627370496)"
  "speed_multiplier default_DifficultyCurve 2 = Inr (4728779608739021 / 4503599627370496)"
  "count_multiplier default_DifficultyCurve 2 = Inr (607985949695017 / 562949953421312)"
  by (simp_all add: health_multiplier_def speed_multiplier_def count_multiplier_def
      default_DifficultyCurve_def py_pow_def default_health_stored default_health_base
      default_health_power default_speed_stored default_speed_base default_speed_power
      default_count_stored default_count_base default_count_power)

text \<open>The same operations for the growth rate \<open>1/128\<close>, which are all exact.\<close>

lemma small_growth_stored: "double_round (1 / 128) = 1 / 128"
  by (subst double_round_eval [where k = "- 7"])
     (simp_all add: pow2_def py_round_int_def Let_def)

lemma small_growth_base: "float_add 1 (1 / 128) = 129 / 128"
  unfolding float_add_def
  by (subst double_round_eval [where k = 0])
     (simp_all add: pow2_def py_round_int_def Let_def)

lemma small_growth_power: "double_round (129 / 128) = 129 / 128"
  by (subst double_round_eval [where k = 0])
     (simp_all add: pow2_def py_round_int_def Let_def)

lemma small_growth_excess: "float_sub (129 / 128) 1 = 1 / 128"
  unfolding float_sub_def
  by (subst double_round_eval [where k = "- 7"])
     (simp_all add: pow2_def py_round_int_def Let_def)

lemma small_growth_percent: "float_mul (1 / 128) 100 = 25 / 32"
  unfolding float_mul_def
  by (subst double_round_eval [where k = "- 1"])
     (simp_all add: pow2_def py_round_int_def Let_def)

lemma unit_count_product: "float_mul 5 1 = 5"
  by (simp add: float_mul_def default_scaled_count_value_stored)

text \<open>A curve as the data model has it.\<close>

lemma pick_special_ok:
  assumes "special_frequency c > 0" and "extra_specials c \<noteq> []"
  shows "pick_special c w =
           Inr (extra_specials c !
                nat ((w div special_frequency c - 1) mod int (length (extra_specials c))))"
  using assms by (simp add: pick_special_def py_floordiv_def py_mod_def Let_def)

lemma assign_special_ok:
  assumes "special_frequency c > 0" and "extra_specials c \<noteq> []"
  shows "assign_special c bp tags =
     (if \<not> truthy (bp_special bp) \<and> bp_wave bp \<ge> special_frequency c
         \<and> bp_wave bp mod special_frequency c = 0
      then Inr (Some (extra_specials c !
                  nat ((bp_wave bp div special_frequency c - 1)
                         mod int (length (extra_specials c)))),
                tags @ [''especial '' @ extra_specials c !
                  nat ((bp_wave bp div special_frequency c - 1)
                         mod int (length (extra_specials c)))])
      else if truthy (bp_special bp)
      then Inr (bp_special bp, tags @ [''especial '' @ the (bp_special bp)])
      else Inr (bp_special bp, tags))"
  using assms by (simp add: assign_special_def py_mod_def pick_special_ok Let_def)

lemma scale_blueprint_ok:
  assumes "special_frequency c > 0" and "extra_specials c \<noteq> []" and "bp_wave bp \<ge> 1"
  shows "scale_blueprint c bp =
     (case assign_special c bp
             (scaling_tags (double_multiplier (health_growth c) (bp_wave bp))
                (double_multiplier (speed_growth c) (bp_wave bp))
                (max 1 \<lceil>float_mul (double_round (of_int (bp_count bp)))
                           (double_multiplier (count_growth c) (bp_wave bp))\<rceil>)
                (bp_count bp)) of
        Inl err \<Rightarrow> Inl err
      | Inr (special, tags) \<Rightarrow>
          Inr \<lparr>cfg_wave = bp_wave bp, cfg_enemy_type = bp_enemy_type bp,
               cfg_count = (max 1 \<lceil>float_mul (double_round (of_int (bp_count bp)))
                           (double_multiplier (count_growth c) (bp_wave bp))\<rceil>),
               cfg_health = py_round (float_mul (double_round (base_health bp))
                              (double_multiplier (health_growth c) (bp_wave bp))) 2,
               cfg_speed = py_round (float_mul (double_round (base_speed bp))
                              (double_multiplier (speed_growth c) (bp_wave bp))) 2,
               cfg_special = special, difficulty_tags = tags\<rparr>)"
  by (simp add: scale_blueprint_def multipliers_ok [OF assms(3)] Let_def)

lemma scale_blueprint_numbers:
  assumes "special_frequency c > 0" and "extra_specials c \<noteq> []" and "bp_wave bp \<ge> 1"
  shows "\<exists>cfg. scale_blueprint c bp = Inr cfg \<and>
     cfg_count cfg = (max 1 \<lceil>float_mul (double_round (of_int (bp_count bp)))
                           (double_multiplier (count_growth c) (bp_wave bp))\<rceil>) \<and>
     cfg_health cfg = py_round (float_mul (double_round (base_health bp))
                        (double_multiplier (health_growth c) (bp_wave bp))) 2 \<and>
     cfg_speed cfg = py_round (float_mul (double_round (base_speed bp))
                       (double_multiplier (speed_growth c) (bp_wave bp))) 2"
  by (simp add: scale_blueprint_ok [OF assms] assign_special_ok [OF assms(1,2)])

text \<open>A scaled value does not decrease when the multiplier grows.\<close>

lemma scaled_value_mono:
  assumes "0 \<le> base" and "0 \<le> m1" and "m1 \<le> m2"
  shows "py_round (float_mul (double_round base) m1) 2
         \<le> py_round (float_mul (double_round base) m2) 2"
proof -
  from assms(1) have b: "0 \<le> double_round base" by (rule double_round_nonneg)
  with assms(2) have "0 \<le> double_round base * m1" by simp
  moreover from b assms(3) have "double_round base * m1 \<le> double_round base * m2"
    by (rule mult_left_mono [rotated])
  ultimately have "float_mul (double_round base) m1 \<le> float_mul (double_round base) m2"
    and "0 \<le> float_mul (double_round base) m1"
    by (simp_all add: float_mul_def double_round_mono double_round_nonneg)
  then show ?thesis by (intro py_round_mono)
qed

lemma scaled_count_mono:
  assumes "0 \<le> n" and "0 \<le> m1" and "m1 \<le> m2"
  shows "max 1 \<lceil>float_mul (double_round (of_int n)) m1\<rceil>
         \<le> max 1 \<lceil>float_mul (double_round (of_int n)) m2\<rceil>"
proof -
  from assms(1) have b: "0 \<le> double_round (of_int n)" by (intro double_round_nonneg) simp
  with assms(2) have "0 \<le> double_round (of_int n) * m1" by simp
  moreover from b assms(3) have "double_round (of_int n) * m1 \<le> double_round (of_int n) * m2"
    by (rule mult_left_mono [rotated])
  ultimately have "float_mul (double_round (of_int n)) m1 \<le> float_mul (double_round (of_int n)) m2"
    by (simp add: float_mul_def double_round_mono)
  then have "\<lceil>float_mul (double_round (of_int n)) m1\<rceil> \<le> \<lceil>float_mul (double_round (of_int n)) m2\<rceil>"
    by (rule ceiling_mono)
  then show ?thesis by simp
qed

text \<open>
  Claim C3. For a curve with non-negative growth rates (and a positive special frequency
  and a non-empty list of specials, so that scaling returns), fixed base values
  \<open>base_health > 0\<close>, \<open>base_speed > 0\<close>, \<open>count \<ge> 1\<close>, and waves \<open>1 \<le> wave1 < wave2\<close>:
  both blueprints are scaled without error, and the health, speed and count of the later
  wave are at least those of the earlier one, with every rounding of the double
  arithmetic, the rounding to 2 decimals and the ceiling included.
\<close>

theorem scaling_is_monotone:
  assumes "health_growth c \<ge> 0" and "speed_growth c \<ge> 0" and "count_growth c \<ge> 0"
    and "special_frequency c > 0" and "extra_specials c \<noteq> []"
    and "base_health bp > 0" and "base_speed bp > 0" and "bp_count bp \<ge> 1"
    and "1 \<le> wave1" and "wave1 < wave2"
  shows "\<exists>c1 c2. scale_blueprint c (bp\<lparr>bp_wave := wave1\<rparr>) = Inr c1 \<and>
                 scale_blueprint c (bp\<lparr>bp_wave := wave2\<rparr>) = Inr c2 \<and>
                 cfg_health c1 \<le> cfg_health c2 \<and>
                 cfg_speed c1 \<le> cfg_speed c2 \<and>
                 cfg_count c1 \<le> cfg_count c2"
proof -
  from assms(9,10) have w: "1 \<le> wave1" "wave1 \<le> wave2" "1 \<le> wave2" by simp_all
  from scale_blueprint_numbers [where c = c and bp = "bp\<lparr>bp_wave := wave1\<rparr>"] assms(4,5) w
  obtain c1 where c1: "scale_blueprint c (bp\<lparr>bp_wave := wave1\<rparr>) = Inr c1"
    "cfg_count c1 = max 1 \<lceil>float_mul (double_round (of_int (bp_count bp)))
                            (double_multiplier (count_growth c) wave1)\<rceil>"
    "cfg_health c1 = py_round (float_mul (double_round (base_health bp))
                        (double_multiplier (health_growth c) wave1)) 2"
    "cfg_speed c1 = py_round (float_mul (double_round (base_speed bp))
                       (double_multiplier (speed_growth c) wave1)) 2"
    by auto
  from scale_blueprint_numbers [where c = c and bp = "bp\<lparr>bp_wave := wave2\<rparr>"] assms(4,5) w
  obtain c2 where c2: "scale_blueprint c (bp\<lparr>bp_wave := wave2\<rparr>) = Inr c2"
    "cfg_count c2 = max 1 \<lceil>float_mul (double_round (of_int (bp_count bp)))
                            (double_multiplier (count_growth c) wave2)\<rceil>"
    "cfg_health c2 = py_round (float_mul (double_round (base_health bp))
                        (double_multiplier (health_growth c) wave2)) 2"
    "cfg_speed c2 = py_round (float_mul (double_round (base_speed bp))
                       (double_multiplier (speed_growth c) wave2)) 2"
    by auto
  have h: "cfg_health c1 \<le> cfg_health c2"
    unfolding c1 c2 using assms(1,6) w
    by (intro scaled_value_mono double_multiplier_mono double_multiplier_nonneg) simp_all
  have s: "cfg_speed c1 \<le> cfg_speed c2"
    unfolding c1 c2 using assms(2,7) w
    by (intro scaled_value_mono double_multiplier_mono double_multiplier_nonneg) simp_all
  have k: "cfg_count c1 \<le> cfg_count c2"
    unfolding c1 c2 using assms(3,8) w
    by (intro scaled_count_mono double_multiplier_mono double_multiplier_nonneg) simp_all
  from c1(1) c2(1) h s k show ?thesis by blast
qed

theorem scaling_is_monotone_witness:
  "\<exists>c1 c2.
     scale_blueprint
       \<lparr>health_growth = 1 / 128, speed_growth = 0, count_growth = 1 / 2,
        special_frequency = 3, extra_specials = [''elite'', ''armored'']\<rparr>
       \<lparr>bp_wave = 1, bp_enemy_type = ''grunt'', bp_count = 5, base_health = 100,
        base_speed = 60, bp_special = None\<rparr> = Inr c1 \<and>
     scale_blueprint
       \<lparr>health_growth = 1 / 128, speed_growth = 0, count_growth = 1 / 2,
        special_frequency = 3, extra_specials = [''elite'', ''armored'']\<rparr>
       \<lparr>bp_wave = 3, bp_enemy_type = ''grunt'', bp_count = 5, base_health = 100,
        base_speed = 60, bp_special = None\<rparr> = Inr c2 \<and>
     cfg_health c1 \<le> cfg_health c2 \<and> cfg_speed c1 \<le> cfg_speed c2 \<and>
     cfg_count c1 \<le> cfg_count c2"
  using scaling_is_monotone
    [where c = "\<lparr>health_growth = 1 / 128, speed_growth = 0, count_growth = 1 / 2,
        special_frequency = 3, extra_specials = [''elite'', ''armored'']\<rparr>"
       and bp = "\<lparr>bp_wave = 1, bp_enemy_type = ''grunt'', bp_count = 5, base_health = 100,
        base_speed = 60, bp_special = None\<rparr>"
       and ?wave1.0 = 1 and ?wave2.0 = 3]
  by simp

text \<open>
  Claim C5. For a blueprint with no special of its own (\<open>None\<close> or the empty string), a
  positive special frequency, a non-empty list of specials and a wave number from 1:
  scaling returns, and a special is assigned and its tag appended after the scaling tags
  exactly when \<open>wave \<ge> special_frequency\<close> and \<open>wave mod special_frequency = 0\<close>; the special
  is \<open>extra_specials[((wave div special_frequency) - 1) mod len(extra_specials)]\<close>, an index
  in range. With frequency 3, waves 3, 6, 9 get the tag and waves 1, 2, 4, 5, 7, 8 do not.
\<close>

theorem special_cadence:
  assumes "\<not> truthy (bp_special bp)"
    and "special_frequency c > 0" and "extra_specials c \<noteq> []" and "bp_wave bp \<ge> 1"
  shows "\<exists>cfg base_tags.
     scale_blueprint c bp = Inr cfg \<and>
     base_tags = scaling_tags (double_multiplier (health_growth c) (bp_wave bp))
                   (double_multiplier (speed_growth c) (bp_wave bp))
                   (max 1 \<lceil>float_mul (double_round (of_int (bp_count bp)))
                           (double_multiplier (count_growth c) (bp_wave bp))\<rceil>)
                   (bp_count bp) \<and>
     nat ((bp_wave bp div special_frequency c - 1) mod int (length (extra_specials c)))
       < length (extra_specials c) \<and>
     (if bp_wave bp \<ge> special_frequency c \<and> bp_wave bp mod special_frequency c = 0
      then cfg_special cfg =
             Some (extra_specials c !
                   nat ((bp_wave bp div special_frequency c - 1)
                          mod int (length (extra_specials c)))) \<and>
           difficulty_tags cfg =
             base_tags @ [''especial '' @ extra_specials c !
                   nat ((bp_wave bp div special_frequency c - 1)
                          mod int (length (extra_specials c)))]
      else cfg_special cfg = bp_special bp \<and> difficulty_tags cfg = base_tags) \<and>
     (special_frequency c = 3 \<longrightarrow>
        (bp_wave bp \<in> {3, 6, 9} \<longrightarrow> difficulty_tags cfg \<noteq> base_tags \<and> cfg_special cfg \<noteq> None) \<and>
        (bp_wave bp \<in> {1, 2, 4, 5, 7, 8} \<longrightarrow>
           difficulty_tags cfg = base_tags \<and> cfg_special cfg = bp_special bp))"
proof -
  have idx: "nat ((bp_wave bp div special_frequency c - 1) mod int (length (extra_specials c)))
       < length (extra_specials c)"
    using assms(3) by (simp add: nat_less_iff)
  show ?thesis
    using assms(1) idx
    by (auto simp: scale_blueprint_ok [OF assms(2,3,4)] assign_special_ok [OF assms(2,3)])
qed

theorem special_cadence_witness:
  "\<exists>cfg.
     scale_blueprint
       \<lparr>health_growth = 0, speed_growth = 0, count_growth = 0,
        special_frequency = 3, extra_specials = [''elite'', ''armored'', ''ghost'']\<rparr>
       \<lparr>bp_wave = 6, bp_enemy_type = ''grunt'', bp_count = 5, base_health = 100,
        base_speed = 60, bp_special = None\<rparr> = Inr cfg \<and>
     cfg_special cfg = Some ''armored'' \<and> difficulty_tags cfg = [''especial armored'']"
  using special_cadence
    [where bp = "\<lparr>bp_wave = 6, bp_enemy_type = ''grunt'', bp_count = 5, base_health = 100,
        base_speed = 60, bp_special = None\<rparr>"
       and c = "\<lparr>health_growth = 0, speed_growth = 0, count_growth = 0,
        special_frequency = 3, extra_specials = [''elite'', ''armored'', ''ghost'']\<rparr>"]
  by (auto simp: truthy_def scaling_tags_def zero_growth_multiplier
      default_scaled_count_value_stored unit_count_product)

text \<open>
  Claim C4 as stated fails: with \<open>health_growth = 1/128\<close> and wave 2 the health multiplier
  is \<open>129/128 > 1\<close> and \<open>(healthMul - 1) * 100\<close> is \<open>0.78125\<close>, every operation being exact
  on these doubles. That rounds to 1, but the tag the code appends is \<open>+vida 0%\<close>: the
  source formats \<open>int(...)\<close>, which truncates.
\<close>

theorem health_tag_truncates_counterexample:
  "map_sum id difficulty_tags
     (scale_blueprint
        \<lparr>health_growth = 1 / 128, speed_growth = 0, count_growth = 0,
        special_frequency = 3, extra_specials = [''elite'']\<rparr>
        \<lparr>bp_wave = 2, bp_enemy_type = ''grunt'', bp_count = 5, base_health = 100,
        base_speed = 60, bp_special = None\<rparr>) = Inr [''+vida 0%'']
   \<and> health_multiplier
        \<lparr>health_growth = 1 / 128, speed_growth = 0, count_growth = 0,
        special_frequency = 3, extra_specials = [''elite'']\<rparr> 2 = Inr (129 / 128)
   \<and> float_mul (float_sub (129 / 128) 1) 100 = 25 / 32
   \<and> py_round_int (25 / 32) = 1
   \<and> round (25 / 32 :: real) = 1"
proof -
  have m: "health_multiplier
        \<lparr>health_growth = 1 / 128, speed_growth = 0, count_growth = 0,
        special_frequency = 3, extra_specials = [''elite'']\<rparr> 2 = Inr (129 / 128)"
    "speed_multiplier
        \<lparr>health_growth = 1 / 128, speed_growth = 0, count_growth = 0,
        special_frequency = 3, extra_specials = [''elite'']\<rparr> 2 = Inr 1"
    "count_multiplier
        \<lparr>health_growth = 1 / 128, speed_growth = 0, count_growth = 0,
        special_frequency = 3, extra_specials = [''elite'']\<rparr> 2 = Inr 1"
    by (simp_all add: health_multiplier_def speed_multiplier_def count_multiplier_def
        py_pow_def small_growth_stored small_growth_base small_growth_power
        double_round_zero double_round_one float_add_def)
  have p: "float_mul (float_sub (129 / 128) 1) 100 = 25 / 32"
    by (simp only: small_growth_excess small_growth_percent)
  have r: "py_round_int (25 / 32) = 1" "round (25 / 32 :: real) = 1"
    by (simp_all add: py_round_int_def round_def)
  have "map_sum id difficulty_tags
     (scale_blueprint
        \<lparr>health_growth = 1 / 128, speed_growth = 0, count_growth = 0,
        special_frequency = 3, extra_specials = [''elite'']\<rparr>
        \<lparr>bp_wave = 2, bp_enemy_type = ''grunt'', bp_count = 5, base_health = 100,
        base_speed = 60, bp_special = None\<rparr>) = Inr [''+vida 0%'']"
    by (simp add: scale_blueprint_def m p Let_def scaling_tags_def assign_special_def
        truthy_def py_int_def str_int_def str_nat.simps digit_char_def
        default_scaled_count_value_stored unit_count_product)
  with m(1) p r show ?thesis by simp
qed

text \<open>
  Claim C4, amended. For a well-formed curve and a wave number from 1, scaling returns
  and the tags are, in this order: a health tag iff the health multiplier exceeds 1,
  whose number is the double \<open>(healthMul - 1) * 100\<close> truncated to an integer (its floor,
  the value not being negative), not rounded; a speed tag likewise; a count tag iff the
  scaled count exceeds the base count, with the difference; and last at most one special
  tag.
\<close>

theorem difficulty_tags_layout:
  assumes "special_frequency c > 0" and "extra_specials c \<noteq> []" and "bp_wave bp \<ge> 1"
  shows "\<exists>cfg special_tags.
     scale_blueprint c bp = Inr cfg \<and>
     health_multiplier c (bp_wave bp) = Inr (double_multiplier (health_growth c) (bp_wave bp)) \<and>
     speed_multiplier c (bp_wave bp) = Inr (double_multiplier (speed_growth c) (bp_wave bp)) \<and>
     difficulty_tags cfg =
       (if double_multiplier (health_growth c) (bp_wave bp) > 1
        then [''+vida '' @
              str_int \<lfloor>float_mul
                        (float_sub (double_multiplier (health_growth c) (bp_wave bp)) 1) 100\<rfloor>
              @ ''%'']
        else []) @
       (if double_multiplier (speed_growth c) (bp_wave bp) > 1
        then [''+velocidad '' @
              str_int \<lfloor>float_mul
                        (float_sub (double_multiplier (speed_growth c) (bp_wave bp)) 1) 100\<rfloor>
              @ ''%'']
        else []) @
       (if cfg_count cfg > bp_count bp
        then [''+cantidad '' @ str_int (cfg_count cfg - bp_count bp)]
        else []) @
       special_tags \<and>
     (special_tags = [] \<or>
      (\<exists>s. cfg_special cfg = Some s \<and> special_tags = [''especial '' @ s]))"
proof -
  have pc: "py_int (float_mul (float_sub m 1) 100) = \<lfloor>float_mul (float_sub m 1) 100\<rfloor>"
    if "m > 1" for m
  proof -
    from that have "0 \<le> float_sub m 1" by (simp add: float_sub_def double_round_nonneg)
    then have "0 \<le> float_mul (float_sub m 1) 100"
      by (simp add: float_mul_def double_round_nonneg)
    then show ?thesis by (rule py_int_nonneg)
  qed
  have tr: "truthy (bp_special bp) \<Longrightarrow> bp_special bp = Some (the (bp_special bp))"
    by (cases "bp_special bp") (simp_all add: truthy_def)
  show ?thesis
    using pc tr
    by (simp add: scale_blueprint_ok [OF assms] assign_special_ok [OF assms(1,2)]
        multipliers_ok [OF assms(3)] scaling_tags_def Let_def)
qed

text \<open>
  On the default curve at wave 2 the tags are \<open>+vida 21%\<close>, \<open>+velocidad 5%\<close> and
  \<open>+cantidad 1\<close>: the double that \<open>(1.22 - 1) * 100\<close> evaluates to is just below 22.
\<close>

theorem difficulty_tags_layout_witness:
  "scale_blueprint default_DifficultyCurve
     \<lparr>bp_wave = 2, bp_enemy_type = ''grunt'', bp_count = 5, base_health = 100,
        base_speed = 60, bp_special = None\<rparr> =
   Inr \<lparr>cfg_wave = 2, cfg_enemy_type = ''grunt'', cfg_count = 6, cfg_health = 122,
        cfg_speed = 63, cfg_special = None,
        difficulty_tags = [''+vida 21%'', ''+velocidad 5%'', ''+cantidad 1'']\<rparr>"
proof -
  have sf: "special_frequency default_DifficultyCurve = 3"
    and ex: "extra_specials default_DifficultyCurve \<noteq> []"
    by (simp_all add: default_DifficultyCurve_def)
  have c: "\<lceil>3039929748475085 / 562949953421312 :: real\<rceil> = 6"
    by (simp add: ceiling_eq_iff)
  have h: "py_round 122 2 = 122" and s: "py_round 63 2 = 63"
    by (simp_all add: py_round_def py_round_int_def default_scaled_health_rounded
        default_scaled_speed_rounded)
  from difficulty_tags_layout
    [where c = default_DifficultyCurve
       and bp = "\<lparr>bp_wave = 2, bp_enemy_type = ''grunt'', bp_count = 5, base_health = 100,
        base_speed = 60, bp_special = None\<rparr>"]
  show ?thesis
    by (simp add: scale_blueprint_def default_multipliers sf Let_def scaling_tags_def
        assign_special_def truthy_def py_int_def str_int_def str_nat.simps digit_char_def
        default_scaled_health_value_stored default_scaled_health_product h
        default_scaled_speed_value_stored default_scaled_speed_product s
        default_scaled_count_value_stored default_scaled_count_product c
        default_health_excess default_health_percent
        default_speed_excess default_speed_percent)
qed

section \<open>Properties of projectiles and of the build manager\<close>

lemma distance_zero_iff:
  "sqrt ((tx - x)\<^sup>2 + (ty - y)\<^sup>2) = 0 \<longleftrightarrow> tx = x \<and> ty = y" for tx ty x y :: real
  by (simp add: sum_power2_eq_zero_iff)

text \<open>
  Claim C6, for any target implementation \<open>ops\<close> (so "the target's state is unchanged"
  means \<open>take_damage\<close> was not called). If the target is not alive, \<open>update\<close> marks the
  projectile finished and leaves the target as it is, and so does \<open>_hit_target\<close>, the step
  that applies damage: liveness is checked again there, right before \<open>take_damage\<close>. When an
  unfinished projectile arrives at a live target (\<open>speed * dt \<ge> distance\<close>), \<open>update\<close> is
  that step at the target's position: one call of \<open>take_damage\<close>, projectile finished. Once
  finished, \<open>update\<close> changes nothing.
\<close>

theorem projectile_never_damages_dead_target:
  "(\<not> is_alive ops tgt \<longrightarrow>
      Projectile_update ops dt (p, tgt) = (p\<lparr>finished := True\<rparr>, tgt) \<and>
      hit_target ops (p, tgt) = (p\<lparr>finished := True\<rparr>, tgt))
   \<and> (\<not> finished p \<and> is_alive ops tgt \<and>
        proj_speed p * dt \<ge>
          sqrt ((fst (tl_position ops tgt) - fst (proj_position p))\<^sup>2 +
                (snd (tl_position ops tgt) - snd (proj_position p))\<^sup>2) \<longrightarrow>
      Projectile_update ops dt (p, tgt) =
        hit_target ops (p\<lparr>proj_position := tl_position ops tgt\<rparr>, tgt) \<and>
      Projectile_update ops dt (p, tgt) =
        (p\<lparr>proj_position := tl_position ops tgt, finished := True\<rparr>,
         tl_take_damage ops (proj_damage p) tgt))
   \<and> (finished p \<longrightarrow> Projectile_update ops dt (p, tgt) = (p, tgt))"
proof -
  have dead: "Projectile_update ops dt (p, tgt) = (p\<lparr>finished := True\<rparr>, tgt)"
    if "\<not> is_alive ops tgt"
  proof (cases "finished p")
    case True
    then have "p\<lparr>finished := True\<rparr> = p" by simp
    with True show ?thesis by (simp add: Projectile_update_def)
  next
    case False
    with that show ?thesis by (simp add: Projectile_update_def)
  qed
  have dead_hit: "hit_target ops (p, tgt) = (p\<lparr>finished := True\<rparr>, tgt)"
    if "\<not> is_alive ops tgt"
    using that by (simp add: hit_target_def)
  have arrive: "Projectile_update ops dt (p, tgt) =
        hit_target ops (p\<lparr>proj_position := tl_position ops tgt\<rparr>, tgt)"
    if "\<not> finished p" and "is_alive ops tgt"
      and "proj_speed p * dt \<ge>
          sqrt ((fst (tl_position ops tgt) - fst (proj_position p))\<^sup>2 +
                (snd (tl_position ops tgt) - snd (proj_position p))\<^sup>2)"
  proof -
    define d where "d = sqrt ((fst (tl_position ops tgt) - fst (proj_position p))\<^sup>2 +
                (snd (tl_position ops tgt) - snd (proj_position p))\<^sup>2)"
    have upd: "Projectile_update ops dt (p, tgt) =
        (if d = 0 then hit_target ops (p, tgt)
         else hit_target ops (p\<lparr>proj_position := tl_position ops tgt\<rparr>, tgt))"
      using that unfolding d_def by (simp add: Projectile_update_def Let_def del: real_sqrt_eq_zero_cancel_iff)
    show ?thesis
    proof (cases "d = 0")
      case True
      then have "tl_position ops tgt = proj_position p"
        unfolding d_def by (simp add: distance_zero_iff prod_eq_iff)
      then have "p\<lparr>proj_position := tl_position ops tgt\<rparr> = p" by simp
      with upd True show ?thesis by simp
    next
      case False
      with upd show ?thesis by simp
    qed
  qed
  have arrive2: "hit_target ops (p\<lparr>proj_position := tl_position ops tgt\<rparr>, tgt) =
        (p\<lparr>proj_position := tl_position ops tgt, finished := True\<rparr>,
         tl_take_damage ops (proj_damage p) tgt)"
    if "is_alive ops tgt"
    using that by (simp add: hit_target_def)
  have fin: "Projectile_update ops dt (p, tgt) = (p, tgt)" if "finished p"
    using that by (simp add: Projectile_update_def)
  from dead dead_hit arrive arrive2 fin show ?thesis by simp
qed

theorem projectile_never_damages_dead_target_witness:
  "Projectile_update
     \<lparr>tl_position = fst, is_alive = (\<lambda>t. 0 < snd t),
      tl_take_damage = (\<lambda>a t. (fst t, snd t - a))\<rparr> 1
     (\<lparr>proj_position = (0, 0), proj_speed = 400, proj_damage = 7, finished = False\<rparr>,
      ((1, 0), 0)) =
   (\<lparr>proj_position = (0, 0), proj_speed = 400, proj_damage = 7, finished = True\<rparr>,
    ((1, 0), 0))
   \<and> Projectile_update
     \<lparr>tl_position = fst, is_alive = (\<lambda>t. 0 < snd t),
      tl_take_damage = (\<lambda>a t. (fst t, snd t - a))\<rparr> 1
     (\<lparr>proj_position = (0, 0), proj_speed = 400, proj_damage = 7, finished = False\<rparr>,
      ((1, 0), 10)) =
   (\<lparr>proj_position = (1, 0), proj_speed = 400, proj_damage = 7, finished = True\<rparr>,
    ((1, 0), 3))
   \<and> Projectile_update
     \<lparr>tl_position = fst, is_alive = (\<lambda>t. 0 < snd t),
      tl_take_damage = (\<lambda>a t. (fst t, snd t - a))\<rparr> 1
     (\<lparr>proj_position = (1, 0), proj_speed = 400, proj_damage = 7, finished = True\<rparr>,
      ((1, 0), 3)) =
   (\<lparr>proj_position = (1, 0), proj_speed = 400, proj_damage = 7, finished = True\<rparr>,
    ((1, 0), 3))"
  using projectile_never_damages_dead_target
    [of "\<lparr>tl_position = fst, is_alive = (\<lambda>t. 0 < snd t),
          tl_take_damage = (\<lambda>a t. (fst t, snd t - a))\<rparr>" "((1, 0), 0)" 1
        "\<lparr>proj_position = (0, 0), proj_speed = 400, proj_damage = 7, finished = False\<rparr>"]
    projectile_never_damages_dead_target
    [of "\<lparr>tl_position = fst, is_alive = (\<lambda>t. 0 < snd t),
          tl_take_damage = (\<lambda>a t. (fst t, snd t - a))\<rparr>" "((1, 0), 10)" 1
        "\<lparr>proj_position = (0, 0), proj_speed = 400, proj_damage = 7, finished = False\<rparr>"]
    projectile_never_damages_dead_target
    [of "\<lparr>tl_position = fst, is_alive = (\<lambda>t. 0 < snd t),
          tl_take_damage = (\<lambda>a t. (fst t, snd t - a))\<rparr>" "((1, 0), 3)" 1
        "\<lparr>proj_position = (1, 0), proj_speed = 400, proj_damage = 7, finished = True\<rparr>"]
  by (simp add: hit_target_def)

text \<open>
  Claim C8. With a button selected, a preview whose \<open>can_build\<close> holds and \<open>money\<close> at least
  the button's cost, \<open>confirm_build\<close> returns the button, adds exactly the previewed cell to
  the occupied tiles and clears selection and preview, so that a second \<open>confirm_build\<close>
  right after returns none. In every other case it returns none and changes nothing. It
  returns a button iff the three conditions hold.
\<close>

theorem confirm_build_succeeds_iff:
  "(case (selected_button m, preview m) of
      (Some b, Some pv) \<Rightarrow>
        if can_build pv \<and> money \<ge> cost b
        then confirm_build occupied_tiles money m =
               (Some b, insert (grid_position pv) occupied_tiles,
                m\<lparr>selected_button := None, preview := None\<rparr>)
             \<and> fst (confirm_build occupied2 money2
                       (snd (snd (confirm_build occupied_tiles money m)))) = None
        else confirm_build occupied_tiles money m = (None, occupied_tiles, m)
    | _ \<Rightarrow> confirm_build occupied_tiles money m = (None, occupied_tiles, m))
   \<and> (fst (confirm_build occupied_tiles money m) \<noteq> None \<longleftrightarrow>
        (\<exists>b pv. selected_button m = Some b \<and> preview m = Some pv \<and> can_build pv
                \<and> money \<ge> cost b))"
  by (auto simp: confirm_build_def cancel_def Let_def split: option.splits)

theorem confirm_build_succeeds_iff_witness:
  "update_preview (70, 40) {} 100
     (snd (begin_build \<lparr>name = ''archer'', cost = 50, button_position = (0, 0), button_size = (96, 32)\<rparr> 100 (init_BuildManager 32 None))) =
   Inr (Some \<lparr>grid_position = (2, 1), pixel_position = (64, 32), color = PREVIEW_OK_COLOR,
             can_build = True\<rparr>,
        \<lparr>tile_size = 32, blocked_tiles = set BLOCKED_TILES,
        selected_button = Some \<lparr>name = ''archer'', cost = 50, button_position = (0, 0), button_size = (96, 32)\<rparr>,
        preview = Some \<lparr>grid_position = (2, 1), pixel_position = (64, 32), color = PREVIEW_OK_COLOR,
             can_build = True\<rparr>\<rparr>)
   \<and> confirm_build {} 100
       \<lparr>tile_size = 32, blocked_tiles = set BLOCKED_TILES,
        selected_button = Some \<lparr>name = ''archer'', cost = 50, button_position = (0, 0), button_size = (96, 32)\<rparr>,
        preview = Some \<lparr>grid_position = (2, 1), pixel_position = (64, 32), color = PREVIEW_OK_COLOR,
             can_build = True\<rparr>\<rparr> =
     (Some \<lparr>name = ''archer'', cost = 50, button_position = (0, 0), button_size = (96, 32)\<rparr>, {(2, 1)},
      \<lparr>tile_size = 32, blocked_tiles = set BLOCKED_TILES, selected_button = None,
       preview = None\<rparr>)
   \<and> fst (confirm_build {(2, 1)} 100
            (snd (snd (confirm_build {} 100
               \<lparr>tile_size = 32, blocked_tiles = set BLOCKED_TILES,
        selected_button = Some \<lparr>name = ''archer'', cost = 50, button_position = (0, 0), button_size = (96, 32)\<rparr>,
        preview = Some \<lparr>grid_position = (2, 1), pixel_position = (64, 32), color = PREVIEW_OK_COLOR,
             can_build = True\<rparr>\<rparr>)))) = None
   \<and> confirm_build {} 10
       \<lparr>tile_size = 32, blocked_tiles = set BLOCKED_TILES,
        selected_button = Some \<lparr>name = ''archer'', cost = 50, button_position = (0, 0), button_size = (96, 32)\<rparr>,
        preview = Some \<lparr>grid_position = (2, 1), pixel_position = (64, 32), color = PREVIEW_OK_COLOR,
             can_build = True\<rparr>\<rparr> =
     (None, {},
      \<lparr>tile_size = 32, blocked_tiles = set BLOCKED_TILES,
        selected_button = Some \<lparr>name = ''archer'', cost = 50, button_position = (0, 0), button_size = (96, 32)\<rparr>,
        preview = Some \<lparr>grid_position = (2, 1), pixel_position = (64, 32), color = PREVIEW_OK_COLOR,
             can_build = True\<rparr>\<rparr>)"
  using confirm_build_succeeds_iff
    [where m = "\<lparr>tile_size = 32, blocked_tiles = set BLOCKED_TILES,
        selected_button = Some \<lparr>name = ''archer'', cost = 50, button_position = (0, 0), button_size = (96, 32)\<rparr>,
        preview = Some \<lparr>grid_position = (2, 1), pixel_position = (64, 32), color = PREVIEW_OK_COLOR,
             can_build = True\<rparr>\<rparr>"
       and money = 100 and occupied_tiles = "{}" and ?occupied2.0 = "{(2, 1)}" and ?money2.0 = 100]
    confirm_build_succeeds_iff
    [where m = "\<lparr>tile_size = 32, blocked_tiles = set BLOCKED_TILES,
        selected_button = Some \<lparr>name = ''archer'', cost = 50, button_position = (0, 0), button_size = (96, 32)\<rparr>,
        preview = Some \<lparr>grid_position = (2, 1), pixel_position = (64, 32), color = PREVIEW_OK_COLOR,
             can_build = True\<rparr>\<rparr>"
       and money = 10 and occupied_tiles = "{}" and ?occupied2.0 = "{}" and ?money2.0 = 10]
  by (simp add: update_preview_def begin_build_def init_BuildManager_def snap_to_grid_def
      can_place_def BLOCKED_TILES_def Let_def confirm_build_def cancel_def)

end
